theory Spec2Isabelle
  imports Main "HOL-Library.Word" "HOL-Library.Multiset" "HOL-Library.List_Lexorder"
begin

section \<open>The ledger store of the sharded chain: data model\<close>

text \<open>
  This theory embeds the block execution and commit pipeline of package \<open>ledgerstore\<close>
  (type \<open>LedgerStoreImp\<close>): header verification, \<open>AddHeader\<close>, \<open>ExecuteBlock\<close>,
  \<open>SubmitBlock\<close>, \<open>executeBlock\<close>, \<open>submitBlock\<close>, \<open>HandleTransaction\<close> and
  \<open>recoverStore\<close>.

  The three durable stores, the state overlay with the caches layered on it, the
  transaction handlers, the hash functions and the consensus helpers are packages whose
  code is not part of the sources at hand. They are parameters of the model: records of
  operations over two type variables,
  \<^item> \<open>'w\<close>, the world outside the \<open>LedgerStoreImp\<close> struct (block store, state store and
    event store with their open batches, the event bus, the package-level gas table);
  \<^item> \<open>'o\<close>, the in-memory execution state of one block (the overlay together with the
    \<open>CacheDB\<close> and \<open>XShardDB\<close> that wrap it and therefore alias it).
  Every theorem below holds for all such operations. The struct's own fields, the control
  flow, the height arithmetic on \<open>uint32\<close> and every error return are modelled as written.

  The admission semaphore and the read-write lock are not modelled: a call is described
  from the moment it holds the semaphore to the moment it releases it.
\<close>

type_synonym Uint256 = "256 word"
type_synonym Address = "160 word"
type_synonym ShardID = "64 word"
type_synonym bytes = "8 word list"
type_synonym PublicKey = bytes
type_synonym CommonShardMsg = bytes
type_synonym MemDB = "(bytes \<times> bytes) list"
type_synonym gas_table = "string \<rightharpoonup> 64 word"
type_synonym peer_info = "string \<rightharpoonup> 32 word"

definition UINT256_EMPTY :: Uint256 where
  "UINT256_EMPTY = 0"

definition ToUint64 :: "ShardID \<Rightarrow> 64 word" where
  "ToUint64 sid = sid"

definition HEADER_INDEX_BATCH_SIZE :: "32 word" where
  "HEADER_INDEX_BATCH_SIZE = 2000"

definition CONTRACT_STATE_FAIL :: "8 word" where
  "CONTRACT_STATE_FAIL = 0"

definition ST_CONTRACT :: "8 word" where
  "ST_CONTRACT = 0x04"

definition ST_STORAGE :: "8 word" where
  "ST_STORAGE = 0x05"

text \<open>
  Go errors. \<open>Errorf\<close> is an error made by \<open>fmt.Errorf\<close> from a message alone, \<open>Wrapf\<close> one
  that formats another error into its message; \<open>External\<close> stands for the errors that the
  collaborators make.
\<close>

datatype error = ErrNotFound | External string | Errorf string | Wrapf string error

text \<open>A call either panics or returns.\<close>

datatype 'a go = Panic | Ret 'a

record Header =
  Version :: "32 word"
  ShardID :: ShardID
  Height :: "32 word"
  ParentHeight :: "32 word"
  PrevBlockHash :: Uint256
  TransactionsRoot :: Uint256
  BlockRoot :: Uint256
  Timestamp :: "32 word"
  ConsensusData :: "64 word"
  ConsensusPayload :: bytes
  NextBookkeeper :: Address
  Bookkeepers :: "PublicKey list"
  SigData :: "bytes list"

datatype TransactionType = Deploy | MetaData | Invoke | ShardCall | OtherTxType nat

datatype Payload = ShardCallPayload "CommonShardMsg list" | OtherPayload bytes

record Transaction =
  TxType :: TransactionType
  Payload :: Payload
  TxBody :: bytes

record ShardTx =
  Tx :: Transaction

text \<open>
  \<open>ShardTxs\<close> is a Go map from shard id to the shard's transactions. It is kept as an
  association list and read only through \<open>map_of\<close> and its key set.
\<close>

record Block =
  Header :: Header
  Transactions :: "Transaction list"
  ShardTxs :: "(ShardID \<times> ShardTx list) list"

datatype NotifyStates =
    ShardEventState bytes
  | MetaDataEvent bytes
  | ContractLifetimeEvent bytes
  | OtherStates bytes

record NotifyEventInfo =
  ContractAddress :: Address
  States :: NotifyStates

record ExecuteNotify =
  TxHash :: Uint256
  State :: "8 word"
  GasConsumed :: "64 word"
  NotifyInfos :: "NotifyEventInfo list"
  SourceTxHash :: "Uint256 list"

record TransactionNotify =
  ContractEvent :: ExecuteNotify
  ShardMsg :: "CommonShardMsg list"

text \<open>\<open>WriteSet\<close> is a pointer to a \<open>MemDB\<close>; \<open>None\<close> is the nil pointer of the zero value.\<close>

record ExecuteResult =
  WriteSet :: "MemDB option"
  Hash :: Uint256
  MerkleRoot :: Uint256
  Notify :: "ExecuteNotify list"
  ShardNotify :: "CommonShardMsg list"

definition zero_result :: ExecuteResult where
  "zero_result = \<lparr>WriteSet = None, Hash = 0, MerkleRoot = 0, Notify = [], ShardNotify = []\<rparr>"

record PeerConfig =
  Index :: "32 word"
  ID :: string

record ChainConfig =
  Peers :: "PeerConfig list"

record VbftBlockInfo =
  LastConfigBlockNum :: "32 word"
  NewChainConfig :: "ChainConfig option"

record Config =
  cfgShardID :: ShardID
  cfgTime :: "32 word"
  cfgHeight :: "32 word"
  cfgParentHeight :: "32 word"

record 'w LedgerStoreImp =
  stores :: 'w
  storedIndexCount :: "32 word"
  currBlockHeight :: "32 word"
  currBlockHash :: Uint256
  headerCache :: "Uint256 \<rightharpoonup> Header"
  headerIndex :: "32 word \<rightharpoonup> Uint256"
  vbftPeerInfoheader :: peer_info
  vbftPeerInfoblock :: peer_info
  stateHashCheckHeight :: "32 word"


record ShardSystemEventMsg =
  FromAddress :: Address
  Event :: bytes

section \<open>The collaborators\<close>

text \<open>
  A Go function returning \<open>(T, error)\<close> whose value is read only when the error is nil is a
  function into \<open>error + T\<close>; where the caller reads both, it is a function into a pair.
  A method that writes takes the world and returns the new one.
\<close>

record header_env =
  HeaderHash :: "Header \<Rightarrow> Uint256"
  ConsensusType :: string
  PubkeyID :: "PublicKey \<Rightarrow> string"
  VerifyMultiSignature :: "Uint256 \<Rightarrow> PublicKey list \<Rightarrow> int \<Rightarrow> bytes list \<Rightarrow> error option"
  VbftBlock :: "Header \<Rightarrow> error + VbftBlockInfo"
  AddressFromBookkeepers :: "PublicKey list \<Rightarrow> error + Address"

record 'w block_store =
  bsGetHeader :: "'w \<Rightarrow> Uint256 \<Rightarrow> Header option \<times> error option"
  bsGetBlockHash :: "'w \<Rightarrow> 32 word \<Rightarrow> error + Uint256"
  bsGetBlock :: "'w \<Rightarrow> Uint256 \<Rightarrow> error + Block"
  bsGetCurrentBlock :: "'w \<Rightarrow> error + (Uint256 \<times> 32 word)"
  bsNewBatch :: "'w \<Rightarrow> 'w"
  bsSaveHeaderIndexList :: "32 word \<Rightarrow> Uint256 list \<Rightarrow> 'w \<Rightarrow> error option \<times> 'w"
  bsSaveCurrentBlock :: "32 word \<Rightarrow> Uint256 \<Rightarrow> 'w \<Rightarrow> error option \<times> 'w"
  bsSaveBlockHash :: "32 word \<Rightarrow> Uint256 \<Rightarrow> 'w \<Rightarrow> 'w"
  bsSaveBlock :: "Block \<Rightarrow> 'w \<Rightarrow> error option \<times> 'w"
  bsCommitTo :: "'w \<Rightarrow> error option \<times> 'w"

record ('w, 'o) state_store =
  ssNewOverlayDB :: "'w \<Rightarrow> 'o"
  ssGetCurrentBlock :: "'w \<Rightarrow> error + (Uint256 \<times> 32 word)"
  ssGetCurrentLockedAddress :: "'w \<Rightarrow> error + Address list"
  ssGetCurrentLockedKeys :: "'w \<Rightarrow> error + bytes list"
  ssGetStateMerkleRoot :: "'w \<Rightarrow> 32 word \<Rightarrow> Uint256 \<times> error option"
  ssGetStateMerkleRootWithNewHash :: "'w \<Rightarrow> Uint256 \<Rightarrow> Uint256"
  ssGetBlockRootWithNewTxRoots :: "'w \<Rightarrow> Uint256 list \<Rightarrow> Uint256"
  ssNewBatch :: "'w \<Rightarrow> 'w"
  ssAddStateMerkleTreeRoot :: "32 word \<Rightarrow> Uint256 \<Rightarrow> 'w \<Rightarrow> error option \<times> 'w"
  ssAddBlockMerkleTreeRoot :: "Uint256 \<Rightarrow> 'w \<Rightarrow> error option \<times> 'w"
  ssSaveCurrentBlock :: "32 word \<Rightarrow> Uint256 \<Rightarrow> 'w \<Rightarrow> error option \<times> 'w"
  ssAddBlockShardEvents :: "32 word \<Rightarrow> ShardSystemEventMsg list \<Rightarrow> 'w \<Rightarrow> 'w"
  ssBatchDeleteRawKey :: "bytes \<Rightarrow> 'w \<Rightarrow> 'w"
  ssBatchPutRawKeyVal :: "bytes \<Rightarrow> bytes \<Rightarrow> 'w \<Rightarrow> 'w"
  ssCommitTo :: "'w \<Rightarrow> error option \<times> 'w"

record 'w event_store =
  esNewBatch :: "'w \<Rightarrow> 'w"
  esSaveEventNotifyByTx :: "Uint256 \<Rightarrow> ExecuteNotify \<Rightarrow> 'w \<Rightarrow> error option \<times> 'w"
  esSaveEventNotifyByBlock :: "32 word \<Rightarrow> Uint256 list \<Rightarrow> 'w \<Rightarrow> error option \<times> 'w"
  esSaveCurrentBlock :: "32 word \<Rightarrow> Uint256 \<Rightarrow> 'w \<Rightarrow> error option \<times> 'w"
  esSaveContractMetaDataEvent :: "bytes \<Rightarrow> 'w \<Rightarrow> error option \<times> 'w"
  esSaveContractEvent :: "bytes \<Rightarrow> 'w \<Rightarrow> error option \<times> 'w"
  esCommitTo :: "'w \<Rightarrow> error option \<times> 'w"

text \<open>
  \<open>saveCrossShardGovernanceData\<close> and \<open>saveParentShardConfig\<close> decode shard-management
  events and consensus payloads and append shard configurations to the event store batch.
  No property below depends on what they write, so they are kept as operations on the
  world that may panic, fail or succeed. \<open>DefActorPublisher\<close> is \<open>None\<close> for the nil
  publisher.
\<close>

record 'w misc_env =
  EnableEventLog :: bool
  ShardMgmtContractAddress :: Address
  ShardSysMsgContractAddress :: Address
  PushSmartCodeEvent :: "Uint256 \<Rightarrow> ExecuteNotify \<Rightarrow> 'w \<Rightarrow> 'w"
  DefActorPublisher ::
    "(Block \<Rightarrow> ShardSystemEventMsg list \<Rightarrow> (Uint256 \<rightharpoonup> Uint256) \<Rightarrow> 'w \<Rightarrow> 'w) option"
  saveCrossShardGovernanceData ::
    "Block \<Rightarrow> ShardSystemEventMsg list \<Rightarrow> MemDB option \<Rightarrow> 'w \<Rightarrow> (error option \<times> 'w) go"
  saveParentShardConfig :: "Block \<Rightarrow> 'w \<Rightarrow> (error option \<times> 'w) go"

text \<open>
  The state of one block execution outside the struct: the overlay with its wrappers, and
  the two Go maps \<open>lockedAddress\<close> and \<open>lockedKeys\<close>, which the invoke and shard-call
  handlers receive by reference.
\<close>

record 'o exec_state =
  overlay :: 'o
  lockedAddress :: "Address set"
  lockedKeys :: "bytes set"

record ('w, 'o) exec_env =
  TxHashOf :: "Transaction \<Rightarrow> Uint256"
  GAS_TABLE :: "'w \<Rightarrow> gas_table"
  refreshGlobalParam :: "Config \<Rightarrow> 'o \<Rightarrow> 'w LedgerStoreImp \<Rightarrow> error option \<times> 'w"
  NewCacheDB :: "'o \<Rightarrow> 'o"
  NewXShardDB :: "'o \<Rightarrow> 'o"
  cacheReset :: "'o \<Rightarrow> 'o"
  cacheCommit :: "'o \<Rightarrow> 'o"
  overlayError :: "'o \<Rightarrow> error option"
  HandleDeployTransaction ::
    "'w LedgerStoreImp \<Rightarrow> gas_table \<Rightarrow> Transaction \<Rightarrow> Header \<Rightarrow> 'o \<Rightarrow> ExecuteNotify
      \<Rightarrow> error option \<times> 'o \<times> ExecuteNotify"
  HandleChangeMetadataTransaction ::
    "'w LedgerStoreImp \<Rightarrow> gas_table \<Rightarrow> Transaction \<Rightarrow> Header \<Rightarrow> 'o \<Rightarrow> ExecuteNotify
      \<Rightarrow> error option \<times> 'o \<times> ExecuteNotify"
  HandleInvokeTransaction ::
    "'w LedgerStoreImp \<Rightarrow> gas_table \<Rightarrow> Transaction \<Rightarrow> Header \<Rightarrow> 'o exec_state
      \<Rightarrow> TransactionNotify \<Rightarrow> error option \<times> 'o exec_state \<times> TransactionNotify"
  HandleShardCallTransaction ::
    "'w LedgerStoreImp \<Rightarrow> gas_table \<Rightarrow> CommonShardMsg list \<Rightarrow> Header \<Rightarrow> 'o exec_state
      \<Rightarrow> TransactionNotify \<Rightarrow> error option \<times> 'o exec_state \<times> TransactionNotify"
  SetXShardMsgInBlock :: "32 word \<Rightarrow> CommonShardMsg list \<Rightarrow> 'o \<Rightarrow> 'o"
  SetLockedAddress :: "Address list \<Rightarrow> 'o \<Rightarrow> 'o"
  SetLockedKeys :: "bytes list \<Rightarrow> 'o \<Rightarrow> 'o"
  xshardCommit :: "'o \<Rightarrow> 'o"
  ChangeHash :: "'o \<Rightarrow> Uint256"
  GetWriteSet :: "'o \<Rightarrow> MemDB"
  NewIterator :: "'o \<Rightarrow> bytes \<Rightarrow> (bytes \<times> bytes) list \<times> error option"
  sha256 :: "bytes \<Rightarrow> Uint256"

record ('w, 'o) env =
  hdr :: header_env
  bs :: "'w block_store"
  ss :: "('w, 'o) state_store"
  es :: "'w event_store"
  misc :: "'w misc_env"
  ex :: "('w, 'o) exec_env"

text \<open>
  The order in which \<open>range\<close> visits the keys of a Go map is not specified and differs from
  run to run. A run is given a priority for every key; \<open>go_range\<close> visits the keys in the
  order of their priorities, so every choice of priorities gives a permutation of the keys,
  and every permutation comes from some choice.
\<close>

record range_order =
  shardOrder :: "ShardID \<Rightarrow> nat"
  addrOrder :: "Address \<Rightarrow> nat"
  keyOrder :: "bytes \<Rightarrow> nat"

definition go_range :: "('k::linorder \<Rightarrow> nat) \<Rightarrow> 'k set \<Rightarrow> 'k list" where
  "go_range prio S = sort_key prio (sorted_list_of_set S)"

text \<open>Go's integer division truncates towards zero.\<close>

definition go_div :: "int \<Rightarrow> int \<Rightarrow> int" where
  "go_div a b = sgn a * sgn b * (\<bar>a\<bar> div \<bar>b\<bar>)"

definition toLowerChar :: "char \<Rightarrow> char" where
  "toLowerChar c =
     (let n = (of_char c :: nat) in if 65 \<le> n \<and> n \<le> 90 then char_of (n + 32) else c)"

definition ToLower :: "string \<Rightarrow> string" where
  "ToLower str = map toLowerChar str"

section \<open>Headers\<close>

definition GetCurrentBlockHeight :: "'w LedgerStoreImp \<Rightarrow> 32 word" where
  "GetCurrentBlockHeight s = currBlockHeight s"

definition GetCurrentHeaderHeight :: "'w LedgerStoreImp \<Rightarrow> 32 word" where
  "GetCurrentHeaderHeight s =
     (let size = card (dom (headerIndex s)) in
      if size = 0 then 0 else of_nat size - 1)"

definition getHeaderIndex :: "'w LedgerStoreImp \<Rightarrow> 32 word \<Rightarrow> Uint256" where
  "getHeaderIndex s height = (case headerIndex s height of None \<Rightarrow> 0 | Some blockHash \<Rightarrow> blockHash)"

definition GetHeaderByHash ::
  "('w, 'o) env \<Rightarrow> 'w LedgerStoreImp \<Rightarrow> Uint256 \<Rightarrow> Header option \<times> error option" where
  "GetHeaderByHash env s blockHash =
     (case headerCache s blockHash of
        Some header \<Rightarrow> (Some header, None)
      | None \<Rightarrow> bsGetHeader (bs env) (stores s) blockHash)"

text \<open>The \<open>vbft\<close> branch of \<open>verifyHeader\<close>, after the height and timestamp checks.\<close>

definition verifyHeader_vbft :: "header_env \<Rightarrow> Header \<Rightarrow> peer_info \<Rightarrow> peer_info \<times> error option" where
  "verifyHeader_vbft h header vbftPeerInfo =
     (let n = int (card (dom vbftPeerInfo));
          m = n - go_div (n * 6) 7
      in if int (length (Bookkeepers header)) < m
         then (vbftPeerInfo, Some (Errorf ''header Bookkeepers more than 6/7 len vbftPeerInfo''))
         else case find (\<lambda>bookkeeper. vbftPeerInfo (PubkeyID h bookkeeper) = None) (Bookkeepers header) of
           Some bookkeeper \<Rightarrow> (vbftPeerInfo, Some (Errorf ''invalid pubkey''))
         | None \<Rightarrow>
            (case VerifyMultiSignature h (HeaderHash h header) (Bookkeepers header) m (SigData header) of
               Some err \<Rightarrow> (vbftPeerInfo, Some err)
             | None \<Rightarrow>
                (case VbftBlock h header of
                   Inl err \<Rightarrow> (vbftPeerInfo, Some err)
                 | Inr blkInfo \<Rightarrow>
                    (case NewChainConfig blkInfo of
                       Some cfg \<Rightarrow> (fold (\<lambda>p peerInfo. peerInfo(ID p \<mapsto> Index p)) (Peers cfg) Map.empty, None)
                     | None \<Rightarrow> (vbftPeerInfo, None)))))"

text \<open>The branch of \<open>verifyHeader\<close> for every other consensus type.\<close>

definition verifyHeader_solo ::
  "header_env \<Rightarrow> Header \<Rightarrow> Header \<Rightarrow> peer_info \<Rightarrow> peer_info \<times> error option" where
  "verifyHeader_solo h prevHeader header vbftPeerInfo =
     (case AddressFromBookkeepers h (Bookkeepers header) of
        Inl err \<Rightarrow> (vbftPeerInfo, Some err)
      | Inr address \<Rightarrow>
         if NextBookkeeper prevHeader \<noteq> address
         then (vbftPeerInfo, Some (Errorf ''bookkeeper address error''))
         else let n = int (length (Bookkeepers header));
                  m = n - go_div (n - 1) 3
              in case VerifyMultiSignature h (HeaderHash h header) (Bookkeepers header) m (SigData header) of
                   Some err \<Rightarrow> (vbftPeerInfo, Some err)
                 | None \<Rightarrow> (vbftPeerInfo, None))"

definition verifyHeader ::
  "('w, 'o) env \<Rightarrow> 'w LedgerStoreImp \<Rightarrow> Header \<Rightarrow> peer_info \<Rightarrow> peer_info \<times> error option" where
  "verifyHeader env s header vbftPeerInfo =
     (if Height header = 0 then (vbftPeerInfo, None)
      else case GetHeaderByHash env s (PrevBlockHash header) of (prevHeader, err) \<Rightarrow>
        (case (if err = Some ErrNotFound then None else err) of
           Some e \<Rightarrow> (vbftPeerInfo, Some (Wrapf ''get prev header error'' e))
         | None \<Rightarrow>
            (case prevHeader of
               None \<Rightarrow> (vbftPeerInfo, Some (Errorf ''cannot find pre header by blockHash''))
             | Some prev \<Rightarrow>
                if Height prev + 1 \<noteq> Height header
                then (vbftPeerInfo, Some (Errorf ''block height is incorrect''))
                else if Timestamp prev \<ge> Timestamp header
                then (vbftPeerInfo, Some (Errorf ''block timestamp is incorrect''))
                else if ToLower (ConsensusType (hdr env)) = ''vbft''
                then verifyHeader_vbft (hdr env) header vbftPeerInfo
                else verifyHeader_solo (hdr env) prev header vbftPeerInfo)))"

text \<open>
  \<open>AddHeader\<close> assigns the first result of \<open>verifyHeader\<close> to \<open>vbftPeerInfoheader\<close> before it
  looks at the error.
\<close>

definition AddHeader ::
  "('w, 'o) env \<Rightarrow> 'w LedgerStoreImp \<Rightarrow> Header \<Rightarrow> 'w LedgerStoreImp \<times> error option" where
  "AddHeader env s header =
     (let nextHeaderHeight = GetCurrentHeaderHeight s + 1 in
      if Height header \<noteq> nextHeaderHeight
      then (s, Some (Errorf ''header height not equal next header height''))
      else case verifyHeader env s header (vbftPeerInfoheader s) of (info, err) \<Rightarrow>
        (let s1 = s\<lparr>vbftPeerInfoheader := info\<rparr> in
         case err of
           Some e \<Rightarrow> (s1, Some (Wrapf ''verifyHeader error'' e))
         | None \<Rightarrow>
            (s1\<lparr>headerCache := (headerCache s1)(HeaderHash (hdr env) header := Some header),
                headerIndex := (headerIndex s1)(Height header := Some (HeaderHash (hdr env) header))\<rparr>,
             None)))"

section \<open>Executing a block\<close>

definition initial_notify :: "Uint256 \<Rightarrow> TransactionNotify" where
  "initial_notify txHash =
     \<lparr>ContractEvent = \<lparr>TxHash = txHash, State = CONTRACT_STATE_FAIL, GasConsumed = 0,
                        NotifyInfos = [], SourceTxHash = []\<rparr>,
      ShardMsg = []\<rparr>"

text \<open>
  \<open>HandleTransaction\<close> returns the notification (nil with an error) and leaves its effects
  in the overlay, the cache and the two maps. The type assertion on the payload of a
  \<open>ShardCall\<close> transaction panics when the payload is of another type.
\<close>

definition HandleTransaction ::
  "('w, 'o) env \<Rightarrow> 'w LedgerStoreImp \<Rightarrow> gas_table \<Rightarrow> Header \<Rightarrow> Transaction \<Rightarrow> 'o exec_state
    \<Rightarrow> ('o exec_state \<times> TransactionNotify option \<times> error option) go" where
  "HandleTransaction env store gasTable header tx st =
     (let txHash = TxHashOf (ex env) tx;
          notify = initial_notify txHash
      in case TxType tx of
        Deploy \<Rightarrow>
          (case HandleDeployTransaction (ex env) store gasTable tx header (overlay st) (ContractEvent notify) of
             (err, ov, events) \<Rightarrow>
               (case overlayError (ex env) ov of
                  Some oerr \<Rightarrow> Ret (st\<lparr>overlay := ov\<rparr>, None, Some (Wrapf ''HandleDeployTransaction tx error'' oerr))
                | None \<Rightarrow> Ret (st\<lparr>overlay := cacheCommit (ex env) ov\<rparr>, Some (notify\<lparr>ContractEvent := events\<rparr>), None)))
      | MetaData \<Rightarrow>
          (case HandleChangeMetadataTransaction (ex env) store gasTable tx header (overlay st) (ContractEvent notify) of
             (err, ov, events) \<Rightarrow>
               (case overlayError (ex env) ov of
                  Some oerr \<Rightarrow> Ret (st\<lparr>overlay := ov\<rparr>, None, Some (Wrapf ''HandleChangeMetadataTransaction tx error'' oerr))
                | None \<Rightarrow> Ret (st\<lparr>overlay := ov\<rparr>, Some (notify\<lparr>ContractEvent := events\<rparr>), None)))
      | Invoke \<Rightarrow>
          (case HandleInvokeTransaction (ex env) store gasTable tx header st notify of
             (err, st1, notify1) \<Rightarrow>
               (case overlayError (ex env) (overlay st1) of
                  Some oerr \<Rightarrow> Ret (st1, None, Some (Wrapf ''HandleInvokeTransaction tx error'' oerr))
                | None \<Rightarrow> Ret (st1\<lparr>overlay := cacheCommit (ex env) (overlay st1)\<rparr>, Some notify1, None)))
      | ShardCall \<Rightarrow>
          (case Payload tx of
             ShardCallPayload msgs \<Rightarrow>
               (case HandleShardCallTransaction (ex env) store gasTable msgs header st notify of
                  (err, st1, notify1) \<Rightarrow>
                    (case overlayError (ex env) (overlay st1) of
                       Some oerr \<Rightarrow> Ret (st1, None, Some (Wrapf ''HandleDeployTransaction tx error'' oerr))
                     | None \<Rightarrow> Ret (st1\<lparr>overlay := cacheCommit (ex env) (overlay st1)\<rparr>, Some notify1, None)))
           | OtherPayload other \<Rightarrow> Panic)
      | OtherTxType t \<Rightarrow> Ret (st, Some notify, None))"


text \<open>
  One iteration of the two transaction loops of \<open>executeBlock\<close>. The loop over the shard
  transactions refuses a transaction that is not a \<open>ShardCall\<close>, the loop over the block's
  own transactions refuses one that is (\<open>shardLoop\<close> tells the loops apart). The loop state
  is the execution state, \<open>shardNotify\<close> and \<open>result.Notify\<close>. A loop stops at the first
  error, which \<open>executeBlock\<close> returns with the notifications gathered so far.
\<close>

type_synonym 'o loop_state = "'o exec_state \<times> CommonShardMsg list \<times> ExecuteNotify list"

definition exec_tx ::
  "('w, 'o) env \<Rightarrow> 'w LedgerStoreImp \<Rightarrow> gas_table \<Rightarrow> Header \<Rightarrow> bool \<Rightarrow> Transaction
    \<Rightarrow> 'o loop_state \<Rightarrow> ('o loop_state \<times> error option) go" where
  "exec_tx env store gasTable header shardLoop tx acc =
     (case acc of (st, shardNotify, notifies) \<Rightarrow>
       (let st1 = st\<lparr>overlay := cacheReset (ex env) (overlay st)\<rparr> in
        if (TxType tx = ShardCall) \<noteq> shardLoop
        then Ret ((st1, shardNotify, notifies), Some (Errorf ''handleTransaction failed tx type''))
        else case HandleTransaction env store gasTable header tx st1 of
          Panic \<Rightarrow> Panic
        | Ret (st2, notify, Some e) \<Rightarrow> Ret ((st2, shardNotify, notifies), Some e)
        | Ret (st2, None, None) \<Rightarrow> Panic
        | Ret (st2, Some notify, None) \<Rightarrow>
            Ret ((st2, shardNotify @ ShardMsg notify, notifies @ [ContractEvent notify]), None)))"

fun exec_txs ::
  "('w, 'o) env \<Rightarrow> 'w LedgerStoreImp \<Rightarrow> gas_table \<Rightarrow> Header \<Rightarrow> bool \<Rightarrow> Transaction list
    \<Rightarrow> 'o loop_state \<Rightarrow> ('o loop_state \<times> error option) go" where
  "exec_txs env store gasTable header shardLoop [] acc = Ret (acc, None)"
| "exec_txs env store gasTable header shardLoop (tx # txs) acc =
     (case exec_tx env store gasTable header shardLoop tx acc of
        Ret (acc1, None) \<Rightarrow> exec_txs env store gasTable header shardLoop txs acc1
      | stopped \<Rightarrow> stopped)"

definition shard_txs_of :: "Block \<Rightarrow> ShardID \<Rightarrow> Transaction list" where
  "shard_txs_of block sid =
     (case map_of (ShardTxs block) sid of None \<Rightarrow> [] | Some shardTxs \<Rightarrow> map Tx shardTxs)"

fun exec_shard_groups ::
  "('w, 'o) env \<Rightarrow> 'w LedgerStoreImp \<Rightarrow> gas_table \<Rightarrow> Block \<Rightarrow> ShardID list
    \<Rightarrow> 'o loop_state \<Rightarrow> ('o loop_state \<times> error option) go" where
  "exec_shard_groups env store gasTable block [] acc = Ret (acc, None)"
| "exec_shard_groups env store gasTable block (sid # ids) acc =
     (case exec_txs env store gasTable (Header block) True (shard_txs_of block sid) acc of
        Ret (acc1, None) \<Rightarrow> exec_shard_groups env store gasTable block ids acc1
      | stopped \<Rightarrow> stopped)"

text \<open>
  The keys of \<open>block.ShardTxs\<close>, gathered by a \<open>range\<close> and sorted by \<open>sort.Slice\<close> on
  \<open>ToUint64\<close>. The keys of a map are distinct and \<open>ToUint64\<close> is injective, so every sorting
  algorithm gives the same list.
\<close>

definition sorted_shard_ids :: "range_order \<Rightarrow> Block \<Rightarrow> ShardID list" where
  "sorted_shard_ids \<rho> block =
     sort_key ToUint64 (go_range (shardOrder \<rho>) (fst ` set (ShardTxs block)))"

text \<open>
  A \<open>hash.Hash\<close> is the sequence of bytes written to it so far; \<open>Sum\<close> is \<open>sha256\<close> of that
  sequence. An iterator is the list of entries it yields and the value of \<open>iter.Error()\<close>.
\<close>

definition accumulateHash :: "bytes \<Rightarrow> (bytes \<times> bytes) list \<times> error option \<Rightarrow> bytes \<times> error option" where
  "accumulateHash hasher iter =
     (fold (\<lambda>(key, val) h. h @ key @ val) (fst iter) hasher, snd iter)"

definition calculateTotalStateHash :: "('w, 'o) env \<Rightarrow> 'o \<Rightarrow> Uint256 \<times> error option" where
  "calculateTotalStateHash env ov =
     (case accumulateHash [] (NewIterator (ex env) ov [ST_CONTRACT]) of
        (stateDiff, Some err) \<Rightarrow> (0, Some err)
      | (stateDiff, None) \<Rightarrow>
         (case accumulateHash stateDiff (NewIterator (ex env) ov [ST_STORAGE]) of
            (stateDiff1, Some err) \<Rightarrow> (0, Some err)
          | (stateDiff1, None) \<Rightarrow> (sha256 (ex env) stateDiff1, None)))"

text \<open>
  The part of \<open>executeBlock\<close> after the transaction loops, up to \<open>xshardDB.Commit()\<close>: the
  overlay that the result is read from.
\<close>

definition commit_xshard ::
  "('w, 'o) env \<Rightarrow> range_order \<Rightarrow> Block \<Rightarrow> 'o loop_state \<Rightarrow> 'o" where
  "commit_xshard env \<rho> block acc =
     (case acc of (st, shardNotify, notifies) \<Rightarrow>
       (let ov1 = SetXShardMsgInBlock (ex env) (Height (Header block)) shardNotify (overlay st);
            addrList = go_range (addrOrder \<rho>) (lockedAddress st);
            keyList = go_range (keyOrder \<rho>) (lockedKeys st);
            ov2 = SetLockedAddress (ex env) addrList ov1;
            ov3 = SetLockedKeys (ex env) keyList ov2
        in xshardCommit (ex env) ov3))"

text \<open>The last part of \<open>executeBlock\<close>: the result, with the state root by height.\<close>

definition finish_result ::
  "('w, 'o) env \<Rightarrow> 'w LedgerStoreImp \<Rightarrow> Block \<Rightarrow> 'o \<Rightarrow> CommonShardMsg list \<Rightarrow> ExecuteNotify list
    \<Rightarrow> ExecuteResult \<times> error option" where
  "finish_result env s block ov shardNotify notifies =
     (let result = \<lparr>WriteSet = Some (GetWriteSet (ex env) ov), Hash = ChangeHash (ex env) ov,
                     MerkleRoot = 0, Notify = notifies, ShardNotify = shardNotify\<rparr>
      in if Height (Header block) < stateHashCheckHeight s
         then (result\<lparr>MerkleRoot := UINT256_EMPTY\<rparr>, None)
         else if Height (Header block) = stateHashCheckHeight s
         then (case calculateTotalStateHash env ov of
                 (res, Some e) \<Rightarrow> (result, Some e)
               | (res, None) \<Rightarrow> (result\<lparr>MerkleRoot := res, Hash := res\<rparr>, None))
         else (result\<lparr>MerkleRoot := ssGetStateMerkleRootWithNewHash (ss env) (stores s) (Hash result)\<rparr>,
               None))"

text \<open>
  The two loop nests of \<open>executeBlock\<close>: the shard transactions group by group in the
  order of the sorted ids, then the block's own transactions.
\<close>

definition exec_block_txs ::
  "('w, 'o) env \<Rightarrow> range_order \<Rightarrow> 'w LedgerStoreImp \<Rightarrow> gas_table \<Rightarrow> Block
    \<Rightarrow> 'o loop_state \<Rightarrow> ('o loop_state \<times> error option) go" where
  "exec_block_txs env \<rho> store gasTable block acc =
     (case exec_shard_groups env store gasTable block (sorted_shard_ids \<rho> block) acc of
        Ret (acc1, None) \<Rightarrow> exec_txs env store gasTable (Header block) False (Transactions block) acc1
      | stopped \<Rightarrow> stopped)"

text \<open>
  \<open>executeBlock\<close> from the world left by \<open>refreshGlobalParam\<close> up to the end of the loops
  and \<open>xshardDB.Commit()\<close>. \<open>gasTable\<close> is the copy of \<open>neovm.GAS_TABLE\<close> that the \<open>Range\<close>
  call fills entry by entry. The value is the loop state with the overlay after the commit
  in it; an error comes with the notifications gathered before it.
\<close>

definition run_block ::
  "('w, 'o) env \<Rightarrow> range_order \<Rightarrow> 'w LedgerStoreImp \<Rightarrow> Block \<Rightarrow> 'o
    \<Rightarrow> (ExecuteResult \<times> error option) go" where
  "run_block env \<rho> s block overlay0 =
     (let gasTable = GAS_TABLE (ex env) (stores s) in
      case ssGetCurrentLockedAddress (ss env) (stores s) of
        Inl err \<Rightarrow> Ret (zero_result, Some err)
      | Inr addrList \<Rightarrow>
         (case ssGetCurrentLockedKeys (ss env) (stores s) of
            Inl err \<Rightarrow> Ret (zero_result, Some err)
          | Inr keyList \<Rightarrow>
             (let st0 = \<lparr>overlay = NewXShardDB (ex env) (NewCacheDB (ex env) overlay0),
                         lockedAddress = set addrList, lockedKeys = set keyList\<rparr>
              in case exec_block_txs env \<rho> s gasTable block (st0, [], []) of
                   Panic \<Rightarrow> Panic
                 | Ret ((st1, shardNotify, notifies), Some e) \<Rightarrow>
                     Ret (zero_result\<lparr>Notify := notifies\<rparr>, Some e)
                 | Ret ((st1, shardNotify, notifies), None) \<Rightarrow>
                     Ret (finish_result env s block
                            (commit_xshard env \<rho> block (st1, shardNotify, notifies))
                            shardNotify notifies))))"

text \<open>
  \<open>executeBlock\<close>. The overlay is opened on the state store before \<open>refreshGlobalParam\<close>
  runs (on a second overlay of its own); the call returns the world with the result.
\<close>

definition executeBlock ::
  "('w, 'o) env \<Rightarrow> range_order \<Rightarrow> 'w LedgerStoreImp \<Rightarrow> Block
    \<Rightarrow> 'w \<times> (ExecuteResult \<times> error option) go" where
  "executeBlock env \<rho> s block =
     (let overlay0 = ssNewOverlayDB (ss env) (stores s) in
      if Height (Header block) \<noteq> 0
      then (let config = \<lparr>cfgShardID = ShardID (Header block), cfgTime = Timestamp (Header block),
                           cfgHeight = Height (Header block),
                           cfgParentHeight = ParentHeight (Header block)\<rparr>
            in case refreshGlobalParam (ex env) config
                      (NewCacheDB (ex env) (ssNewOverlayDB (ss env) (stores s))) s of
                 (Some err, w1) \<Rightarrow> (w1, Ret (zero_result, Some err))
               | (None, w1) \<Rightarrow> (w1, run_block env \<rho> (s\<lparr>stores := w1\<rparr>) block overlay0))
      else (stores s, run_block env \<rho> s block overlay0))"

definition GetStateMerkleRoot :: "('w, 'o) env \<Rightarrow> 'w LedgerStoreImp \<Rightarrow> 32 word \<Rightarrow> Uint256 \<times> error option" where
  "GetStateMerkleRoot env s height = ssGetStateMerkleRoot (ss env) (stores s) height"

definition ExecuteBlock ::
  "('w, 'o) env \<Rightarrow> range_order \<Rightarrow> 'w LedgerStoreImp \<Rightarrow> Block
    \<Rightarrow> 'w \<times> (ExecuteResult \<times> error option) go" where
  "ExecuteBlock env \<rho> s block =
     (let currBlockHeight = GetCurrentBlockHeight s;
          blockHeight = Height (Header block)
      in if blockHeight \<le> currBlockHeight
         then (case GetStateMerkleRoot env s blockHeight of
                 (root, err) \<Rightarrow> (stores s, Ret (zero_result\<lparr>MerkleRoot := root\<rparr>, err)))
         else let nextBlockHeight = currBlockHeight + 1 in
           if blockHeight \<noteq> nextBlockHeight
           then (stores s, Ret (zero_result, Some (Errorf ''block height not equal next block height'')))
           else executeBlock env \<rho> s block)"


section \<open>Committing a block\<close>

text \<open>
  \<open>on_store\<close> runs a store operation on the world of the ledger; \<open>wrap\<close> is the
  \<open>fmt.Errorf\<close> around a callee's error; \<open>and_then\<close> goes on after a step that returned
  nil and stops after one that returned an error or panicked.
\<close>

definition on_store ::
  "'w LedgerStoreImp \<Rightarrow> ('w \<Rightarrow> error option \<times> 'w) \<Rightarrow> 'w LedgerStoreImp \<times> error option" where
  "on_store s op = (case op (stores s) of (err, w) \<Rightarrow> (s\<lparr>stores := w\<rparr>, err))"

definition wrap :: "string \<Rightarrow> 's \<times> error option \<Rightarrow> 's \<times> error option" where
  "wrap msg r = (fst r, map_option (Wrapf msg) (snd r))"

definition wrap_go :: "string \<Rightarrow> ('s \<times> error option) go \<Rightarrow> ('s \<times> error option) go" where
  "wrap_go msg r = (case r of Panic \<Rightarrow> Panic | Ret x \<Rightarrow> Ret (wrap msg x))"

definition and_then ::
  "('s \<times> error option) go \<Rightarrow> ('s \<Rightarrow> ('s \<times> error option) go) \<Rightarrow> ('s \<times> error option) go" where
  "and_then r f = (case r of Panic \<Rightarrow> Panic | Ret (s, Some e) \<Rightarrow> Ret (s, Some e) | Ret (s, None) \<Rightarrow> f s)"

fun for_each :: "('a \<Rightarrow> 's \<Rightarrow> 's \<times> error option) \<Rightarrow> 'a list \<Rightarrow> 's \<Rightarrow> 's \<times> error option" where
  "for_each body [] s = (s, None)"
| "for_each body (x # xs) s =
     (case body x s of (s1, Some e) \<Rightarrow> (s1, Some e) | (s1, None) \<Rightarrow> for_each body xs s1)"

definition setCurrentBlock :: "32 word \<Rightarrow> Uint256 \<Rightarrow> 'w LedgerStoreImp \<Rightarrow> 'w LedgerStoreImp" where
  "setCurrentBlock height blockHash s = s\<lparr>currBlockHash := blockHash, currBlockHeight := height\<rparr>"

definition setHeaderIndex :: "32 word \<Rightarrow> Uint256 \<Rightarrow> 'w LedgerStoreImp \<Rightarrow> 'w LedgerStoreImp" where
  "setHeaderIndex height blockHash s = s\<lparr>headerIndex := (headerIndex s)(height := Some blockHash)\<rparr>"

definition delHeaderCache :: "Uint256 \<Rightarrow> 'w LedgerStoreImp \<Rightarrow> 'w LedgerStoreImp" where
  "delHeaderCache blockHash s = s\<lparr>headerCache := (headerCache s)(blockHash := None)\<rparr>"

definition BlockHash :: "('w, 'o) env \<Rightarrow> Block \<Rightarrow> Uint256" where
  "BlockHash env block = HeaderHash (hdr env) (Header block)"

definition saveHeaderIndexList ::
  "('w, 'o) env \<Rightarrow> 'w LedgerStoreImp \<Rightarrow> 'w LedgerStoreImp \<times> error option" where
  "saveHeaderIndexList env s =
     (let storeCount = storedIndexCount s;
          currHeight = currBlockHeight s
      in if currHeight - storeCount < HEADER_INDEX_BATCH_SIZE then (s, None)
         else let headerList = map (\<lambda>i. getHeaderIndex s (storeCount + of_nat i))
                                   [0..<unat HEADER_INDEX_BATCH_SIZE]
              in case on_store s (bsSaveHeaderIndexList (bs env) storeCount headerList) of
                   (s1, Some err) \<Rightarrow> (s1, Some (Wrapf ''SaveHeaderIndexList start error'' err))
                 | (s1, None) \<Rightarrow>
                     (s1\<lparr>storedIndexCount := storedIndexCount s1 + HEADER_INDEX_BATCH_SIZE\<rparr>, None))"

definition saveBlockToBlockStore ::
  "('w, 'o) env \<Rightarrow> Block \<Rightarrow> 'w LedgerStoreImp \<Rightarrow> 'w LedgerStoreImp \<times> error option" where
  "saveBlockToBlockStore env block s =
     (let blockHash = BlockHash env block;
          blockHeight = Height (Header block)
      in case wrap ''saveHeaderIndexList error'' (saveHeaderIndexList env (setHeaderIndex blockHeight blockHash s)) of
           (s1, Some e) \<Rightarrow> (s1, Some e)
         | (s1, None) \<Rightarrow>
            (case wrap ''SaveCurrentBlock error'' (on_store s1 (bsSaveCurrentBlock (bs env) blockHeight blockHash)) of
               (s2, Some e) \<Rightarrow> (s2, Some e)
             | (s2, None) \<Rightarrow>
                 wrap ''SaveBlock height hash error''
                   (on_store (s2\<lparr>stores := bsSaveBlockHash (bs env) blockHeight blockHash (stores s2)\<rparr>)
                      (bsSaveBlock (bs env) block))))"

definition shardEventOf :: "'w misc_env \<Rightarrow> NotifyEventInfo \<Rightarrow> ShardSystemEventMsg option" where
  "shardEventOf m n =
     (if ContractAddress n = ShardMgmtContractAddress m \<or> ContractAddress n = ShardSysMsgContractAddress m
      then (case States n of
              ShardEventState shardEvt \<Rightarrow> Some \<lparr>FromAddress = ContractAddress n, Event = shardEvt\<rparr>
            | other \<Rightarrow> None)
      else None)"

definition metaEventOf :: "'w misc_env \<Rightarrow> NotifyEventInfo \<Rightarrow> bytes option" where
  "metaEventOf m n =
     (if ContractAddress n = ShardMgmtContractAddress m \<or> ContractAddress n = ShardSysMsgContractAddress m
      then None
      else (case States n of MetaDataEvent evt \<Rightarrow> Some evt | other \<Rightarrow> None))"

definition contractEventOf :: "'w misc_env \<Rightarrow> NotifyEventInfo \<Rightarrow> bytes option" where
  "contractEventOf m n =
     (if ContractAddress n = ShardMgmtContractAddress m \<or> ContractAddress n = ShardSysMsgContractAddress m
      then None
      else (case States n of ContractLifetimeEvent evt \<Rightarrow> Some evt | other \<Rightarrow> None))"

definition extractShardEvents ::
  "'w misc_env \<Rightarrow> ExecuteNotify list \<Rightarrow> ShardSystemEventMsg list \<times> bytes list \<times> bytes list" where
  "extractShardEvents m notify =
     (let infos = concat (map NotifyInfos notify)
      in (List.map_filter (shardEventOf m) infos,
          List.map_filter (metaEventOf m) infos,
          List.map_filter (contractEventOf m) infos))"

definition extractSourceAndShardTxHash :: "ExecuteNotify list \<Rightarrow> (Uint256 \<rightharpoonup> Uint256)" where
  "extractSourceAndShardTxHash notify =
     fold (\<lambda>n sourceAndShardTxHash.
             fold (\<lambda>sourceTxHash acc. acc(sourceTxHash := Some (TxHash n))) (SourceTxHash n) sourceAndShardTxHash)
          notify Map.empty"

definition saveShardState :: "('w, 'o) env \<Rightarrow> Block \<Rightarrow> ExecuteResult \<Rightarrow> 'w \<Rightarrow> 'w" where
  "saveShardState env block result w =
     (case extractShardEvents (misc env) (Notify result) of
        (shardSysMsg, metaEvents, contractEvents) \<Rightarrow>
          ssAddBlockShardEvents (ss env) (Height (Header block)) shardSysMsg w)"

definition writeSetEntry :: "('w, 'o) env \<Rightarrow> bytes \<times> bytes \<Rightarrow> 'w \<Rightarrow> 'w" where
  "writeSetEntry env kv w =
     (if length (snd kv) = 0 then ssBatchDeleteRawKey (ss env) (fst kv) w
      else ssBatchPutRawKeyVal (ss env) (fst kv) (snd kv) w)"

definition saveEventNotify :: "('w, 'o) env \<Rightarrow> ExecuteNotify \<Rightarrow> 'w LedgerStoreImp \<Rightarrow> 'w LedgerStoreImp \<times> error option" where
  "saveEventNotify env notify s =
     (case on_store s (esSaveEventNotifyByTx (es env) (TxHash notify) notify) of
        (s1, Some err) \<Rightarrow> (s1, Some (Wrapf ''SaveEventNotifyByTx error'' err))
      | (s1, None) \<Rightarrow> (s1\<lparr>stores := PushSmartCodeEvent (misc env) (TxHash notify) notify (stores s1)\<rparr>, None))"

text \<open>\<open>ForEach\<close> on the nil write set of a zero-valued result dereferences nil.\<close>

definition saveBlockToStateStore ::
  "('w, 'o) env \<Rightarrow> Block \<Rightarrow> ExecuteResult \<Rightarrow> 'w LedgerStoreImp \<Rightarrow> ('w LedgerStoreImp \<times> error option) go" where
  "saveBlockToStateStore env block result s =
     (let blockHash = BlockHash env block;
          blockHeight = Height (Header block)
      in and_then (Ret (wrap ''AddBlockMerkleTreeRoot error''
                     (on_store s (ssAddStateMerkleTreeRoot (ss env) blockHeight (Hash result))))) (\<lambda>s1.
         and_then (Ret (wrap ''AddBlockMerkleTreeRoot error''
                     (on_store s1 (ssAddBlockMerkleTreeRoot (ss env) (TransactionsRoot (Header block)))))) (\<lambda>s2.
         and_then (Ret (wrap ''SaveCurrentBlock error''
                     (on_store s2 (ssSaveCurrentBlock (ss env) blockHeight blockHash)))) (\<lambda>s3.
         (let s4 = s3\<lparr>stores := saveShardState env block result (stores s3)\<rparr> in
          case WriteSet result of
            None \<Rightarrow> Panic
          | Some memdb \<Rightarrow>
             (let s5 = s4\<lparr>stores := fold (writeSetEntry env) memdb (stores s4)\<rparr> in
              if EnableEventLog (misc env)
              then Ret (for_each (saveEventNotify env) (Notify result) s5)
              else Ret (s5, None)))))))"

definition saveBlockToEventStore ::
  "('w, 'o) env \<Rightarrow> Block \<Rightarrow> 'w LedgerStoreImp \<Rightarrow> 'w LedgerStoreImp \<times> error option" where
  "saveBlockToEventStore env block s =
     (let blockHash = BlockHash env block;
          blockHeight = Height (Header block);
          txs = map (TxHashOf (ex env)) (Transactions block)
      in case (if length txs > 0
               then wrap ''SaveEventNotifyByBlock error''
                      (on_store s (esSaveEventNotifyByBlock (es env) (Height (Header block)) txs))
               else (s, None)) of
           (s1, Some e) \<Rightarrow> (s1, Some e)
         | (s1, None) \<Rightarrow>
             wrap ''SaveCurrentBlock error'' (on_store s1 (esSaveCurrentBlock (es env) blockHeight blockHash)))"

definition saveContractMetaData ::
  "('w, 'o) env \<Rightarrow> bytes list \<Rightarrow> 'w LedgerStoreImp \<Rightarrow> 'w LedgerStoreImp \<times> error option" where
  "saveContractMetaData env metaEvents s =
     for_each (\<lambda>metaEvent s1. on_store s1 (esSaveContractMetaDataEvent (es env) metaEvent)) metaEvents s"

definition saveCrossShardDeployContractEventData ::
  "('w, 'o) env \<Rightarrow> bytes list \<Rightarrow> 'w LedgerStoreImp \<Rightarrow> 'w LedgerStoreImp \<times> error option" where
  "saveCrossShardDeployContractEventData env contractEvents s =
     for_each (\<lambda>contractEvent s1. on_store s1 (esSaveContractEvent (es env) contractEvent)) contractEvents s"

definition on_store_go ::
  "'w LedgerStoreImp \<Rightarrow> ('w \<Rightarrow> (error option \<times> 'w) go) \<Rightarrow> ('w LedgerStoreImp \<times> error option) go" where
  "on_store_go s op = (case op (stores s) of Panic \<Rightarrow> Panic | Ret (err, w) \<Rightarrow> Ret (s\<lparr>stores := w\<rparr>, err))"

definition saveCrossShardDataToStore ::
  "('w, 'o) env \<Rightarrow> Block \<Rightarrow> ExecuteResult \<Rightarrow> 'w LedgerStoreImp \<Rightarrow> ('w LedgerStoreImp \<times> error option) go" where
  "saveCrossShardDataToStore env block result s =
     (case extractShardEvents (misc env) (Notify result) of
        (shardSysMsg, metaEvents, deployContractEvent) \<Rightarrow>
          and_then (on_store_go s (saveCrossShardGovernanceData (misc env) block shardSysMsg (WriteSet result))) (\<lambda>s1.
          and_then (on_store_go s1 (saveParentShardConfig (misc env) block)) (\<lambda>s2.
          and_then (Ret (saveContractMetaData env metaEvents s2)) (\<lambda>s3.
          Ret (saveCrossShardDeployContractEventData env deployContractEvent s3)))))"

text \<open>
  \<open>GetBlockRootWithNewTxRoots\<close> slices \<open>txRoots\<close> at an index computed in \<open>uint32\<close>; the slice
  expression panics when the index is beyond the length.
\<close>

definition GetBlockRootWithNewTxRoots ::
  "('w, 'o) env \<Rightarrow> 'w LedgerStoreImp \<Rightarrow> 32 word \<Rightarrow> Uint256 list \<Rightarrow> Uint256 go" where
  "GetBlockRootWithNewTxRoots env s startHeight txRoots =
     (if currBlockHeight s > startHeight + of_nat (length txRoots) - 1 then Ret UINT256_EMPTY
      else let i = unat (currBlockHeight s + 1 - startHeight) in
        if i > length txRoots then Panic
        else Ret (ssGetBlockRootWithNewTxRoots (ss env) (stores s) (drop i txRoots)))"

text \<open>The three commits of \<open>submitBlock\<close>, in the order of the source, and what follows them.\<close>

definition publish_complete :: "('w, 'o) env \<Rightarrow> Block \<Rightarrow> ExecuteResult \<Rightarrow> 'w \<Rightarrow> 'w" where
  "publish_complete env block result w =
     (case extractShardEvents (misc env) (Notify result) of
        (shardSysMsg, metaEvents, contractEvents) \<Rightarrow>
          (case DefActorPublisher (misc env) of
             None \<Rightarrow> w
           | Some publish \<Rightarrow> publish block shardSysMsg (extractSourceAndShardTxHash (Notify result)) w))"

definition commit_stores ::
  "('w, 'o) env \<Rightarrow> Block \<Rightarrow> ExecuteResult \<Rightarrow> 'w LedgerStoreImp \<Rightarrow> 'w LedgerStoreImp \<times> error option" where
  "commit_stores env block result s =
     (case wrap ''blockStore.CommitTo error'' (on_store s (bsCommitTo (bs env))) of
        (s1, Some e) \<Rightarrow> (s1, Some e)
      | (s1, None) \<Rightarrow>
         (case wrap ''eventStore.CommitTo error'' (on_store s1 (esCommitTo (es env))) of
            (s2, Some e) \<Rightarrow> (s2, Some e)
          | (s2, None) \<Rightarrow>
             (case wrap ''stateStore.CommitTo error'' (on_store s2 (ssCommitTo (ss env))) of
                (s3, Some e) \<Rightarrow> (s3, Some e)
              | (s3, None) \<Rightarrow>
                 (let s4 = setCurrentBlock (Height (Header block)) (BlockHash env block) s3
                  in (s4\<lparr>stores := publish_complete env block result (stores s4)\<rparr>, None)))))"

text \<open>The part of \<open>submitBlock\<close> that fills the three batches.\<close>

definition save_batches ::
  "('w, 'o) env \<Rightarrow> Block \<Rightarrow> ExecuteResult \<Rightarrow> 'w LedgerStoreImp \<Rightarrow> ('w LedgerStoreImp \<times> error option) go" where
  "save_batches env block result s =
     (let s0 = s\<lparr>stores := esNewBatch (es env) (ssNewBatch (ss env) (bsNewBatch (bs env) (stores s)))\<rparr>
      in and_then (Ret (wrap ''save to block store height error'' (saveBlockToBlockStore env block s0))) (\<lambda>s1.
         and_then (wrap_go ''save to state store height error'' (saveBlockToStateStore env block result s1)) (\<lambda>s2.
         and_then (Ret (wrap ''save to event store height error'' (saveBlockToEventStore env block s2))) (\<lambda>s3.
         wrap_go ''save to save cross shard data height error'' (saveCrossShardDataToStore env block result s3)))))"

definition submitBlock ::
  "('w, 'o) env \<Rightarrow> 'w LedgerStoreImp \<Rightarrow> Block \<Rightarrow> ExecuteResult \<Rightarrow> ('w LedgerStoreImp \<times> error option) go" where
  "submitBlock env s block result =
     (case GetBlockRootWithNewTxRoots env s (Height (Header block)) [TransactionsRoot (Header block)] of
        Panic \<Rightarrow> Panic
      | Ret blockRoot \<Rightarrow>
         if Height (Header block) \<noteq> 0 \<and> blockRoot \<noteq> BlockRoot (Header block)
         then Ret (s, Some (Errorf ''wrong block root at height''))
         else and_then (save_batches env block result s) (\<lambda>s1. Ret (commit_stores env block result s1)))"

definition SubmitBlock ::
  "('w, 'o) env \<Rightarrow> 'w LedgerStoreImp \<Rightarrow> Block \<Rightarrow> ExecuteResult \<Rightarrow> ('w LedgerStoreImp \<times> error option) go" where
  "SubmitBlock env s block result =
     (let currBlockHeight = GetCurrentBlockHeight s;
          blockHeight = Height (Header block)
      in if blockHeight \<le> currBlockHeight then Ret (s, None)
         else let nextBlockHeight = currBlockHeight + 1 in
           if blockHeight \<noteq> nextBlockHeight
           then Ret (s, Some (Errorf ''block height not equal next block height''))
           else case verifyHeader env s (Header block) (vbftPeerInfoblock s) of (info, err) \<Rightarrow>
             (let s1 = s\<lparr>vbftPeerInfoblock := info\<rparr> in
              case err of
                Some e \<Rightarrow> Ret (s1, Some (Wrapf ''verifyHeader error'' e))
              | None \<Rightarrow>
                 (case submitBlock env s1 block result of
                    Panic \<Rightarrow> Panic
                  | Ret (s2, Some e) \<Rightarrow> Ret (s2, Some (Wrapf ''saveBlock error'' e))
                  | Ret (s2, None) \<Rightarrow> Ret (delHeaderCache (BlockHash env block) s2, None))))"


section \<open>Recovery\<close>

text \<open>
  \<open>loadCurrentBlock\<close> sets the in-memory pointer to the current block from the block
  store.
\<close>

definition loadCurrentBlock ::
  "('w, 'o) env \<Rightarrow> 'w LedgerStoreImp \<Rightarrow> 'w LedgerStoreImp \<times> error option" where
  "loadCurrentBlock env s =
     (case bsGetCurrentBlock (bs env) (stores s) of
        Inl err \<Rightarrow> (s, Some (Wrapf ''LoadCurrentBlock error'' err))
      | Inr (currentBlockHash, currentBlockHeight) \<Rightarrow>
          (s\<lparr>currBlockHash := currentBlockHash, currBlockHeight := currentBlockHeight\<rparr>, None))"

text \<open>One iteration of the loop of \<open>recoverStore\<close>, for height \<open>i\<close>.\<close>

definition recover_height ::
  "('w, 'o) env \<Rightarrow> range_order \<Rightarrow> 32 word \<Rightarrow> 'w LedgerStoreImp \<Rightarrow> ('w LedgerStoreImp \<times> error option) go" where
  "recover_height env \<rho> i s =
     (case bsGetBlockHash (bs env) (stores s) i of
        Inl err \<Rightarrow> Ret (s, Some (Wrapf ''blockStore.GetBlockHash height error'' err))
      | Inr blockHash \<Rightarrow>
         (case bsGetBlock (bs env) (stores s) blockHash of
            Inl err \<Rightarrow> Ret (s, Some (Wrapf ''blockStore.GetBlock height error'' err))
          | Inr block \<Rightarrow>
             (let s0 = s\<lparr>stores := ssNewBatch (ss env) (esNewBatch (es env) (stores s))\<rparr> in
              case executeBlock env \<rho> s0 block of
                (w1, Panic) \<Rightarrow> Panic
              | (w1, Ret (result, Some err)) \<Rightarrow> Ret (s0\<lparr>stores := w1\<rparr>, Some err)
              | (w1, Ret (result, None)) \<Rightarrow>
                  and_then (wrap_go ''save to state store height error''
                              (saveBlockToStateStore env block result (s0\<lparr>stores := w1\<rparr>))) (\<lambda>s2.
                  and_then (Ret (wrap ''save to event store height error''
                              (saveBlockToEventStore env block s2))) (\<lambda>s3.
                  and_then (Ret (wrap ''eventStore.CommitTo height error''
                              (on_store s3 (esCommitTo (es env))))) (\<lambda>s4.
                  Ret (wrap ''stateStore.CommitTo height error''
                         (on_store s4 (ssCommitTo (ss env))))))))))"

text \<open>
  The loop \<open>for i := stateHeight; i < blockHeight; i++\<close>. The run at height \<open>i\<close> visits its
  maps in the order \<open>\<rho> i\<close>.
\<close>

function recover_loop ::
  "('w, 'o) env \<Rightarrow> (32 word \<Rightarrow> range_order) \<Rightarrow> 32 word \<Rightarrow> 32 word \<Rightarrow> 'w LedgerStoreImp
    \<Rightarrow> ('w LedgerStoreImp \<times> error option) go" where
  "recover_loop env \<rho> i blockHeight s =
     (if i < blockHeight
      then (case recover_height env (\<rho> i) i s of
              Ret (s1, None) \<Rightarrow> recover_loop env \<rho> (i + 1) blockHeight s1
            | stopped \<Rightarrow> stopped)
      else Ret (s, None))"
  by pat_completeness auto
termination
proof (relation "measure (\<lambda>(env, \<rho>, i, blockHeight, s). unat blockHeight - unat i)")
  show "wf (measure (\<lambda>(env :: ('w, 'o) env, \<rho> :: 32 word \<Rightarrow> range_order, i :: 32 word,
                        blockHeight :: 32 word, s :: 'w LedgerStoreImp). unat blockHeight - unat i))"
    by simp
next
  fix env :: "('w, 'o) env" and \<rho> :: "32 word \<Rightarrow> range_order" and i blockHeight :: "32 word"
    and s :: "'w LedgerStoreImp" and x2 x1 x2a
  assume less: "i < blockHeight"
  have "i \<noteq> - 1" using less by (metis word_order.extremum_strict)
  then have "1 + i \<noteq> 0" by (metis add.commute add_eq_0_iff)
  then have "unat (i + 1) = Suc (unat i)" using unatSuc [of i] by (simp add: add.commute)
  moreover have "unat i < unat blockHeight" using less by (simp add: word_less_nat_alt)
  ultimately show "((env, \<rho>, i + 1, blockHeight, x1), env, \<rho>, i, blockHeight, s)
        \<in> measure (\<lambda>(env, \<rho>, i, blockHeight, s). unat blockHeight - unat i)"
    by simp
qed

declare recover_loop.simps [simp del]

definition recoverStore ::
  "('w, 'o) env \<Rightarrow> (32 word \<Rightarrow> range_order) \<Rightarrow> 'w LedgerStoreImp \<Rightarrow> ('w LedgerStoreImp \<times> error option) go" where
  "recoverStore env \<rho> s =
     (let blockHeight = GetCurrentBlockHeight s in
      case ssGetCurrentBlock (ss env) (stores s) of
        Inl err \<Rightarrow> Ret (s, Some (Wrapf ''stateStore.GetCurrentBlock error'' err))
      | Inr (stateHash, stateHeight) \<Rightarrow> recover_loop env \<rho> stateHeight blockHeight s)"


section \<open>A concrete instance\<close>

text \<open>
  A small instance of the collaborators, on which the theorems are exercised. Each of the
  three stores is a list of committed writes and an open batch; \<open>CommitTo\<close> appends the
  batch to the committed writes, or fails and leaves the store as it is when the store is
  marked \<open>failing\<close>. A read returns the last committed write of its kind. The overlay
  holds its buffered writes, its error flag and a trace of the calls made on it and on
  the caches that wrap it. The world keeps a journal of the commits attempted and the
  messages published.
\<close>

datatype wr =
    WCurrentBlock "32 word" Uint256
  | WBlockHash "32 word" Uint256
  | WBlock Block
  | WStateRoot "32 word" Uint256
  | WTxRoot Uint256
  | WPut bytes bytes
  | WDelete bytes
  | WEvent string

record demo_store =
  durable :: "wr list"
  batch :: "wr list"
  failing :: bool

record demo_world =
  blockStore :: demo_store
  stateStore :: demo_store
  eventStore :: demo_store
  journal :: "string list"

record demo_overlay =
  writes :: MemDB
  dbErr :: "error option"
  trace :: "string list"

definition demo_put :: "wr \<Rightarrow> demo_store \<Rightarrow> demo_store" where
  "demo_put w st = st\<lparr>batch := batch st @ [w]\<rparr>"

definition demo_new_batch :: "demo_store \<Rightarrow> demo_store" where
  "demo_new_batch st = st\<lparr>batch := []\<rparr>"

definition demo_commit :: "demo_store \<Rightarrow> error option \<times> demo_store" where
  "demo_commit st =
     (if failing st then (Some (External ''commit failed''), st)
      else (None, st\<lparr>durable := durable st @ batch st, batch := []\<rparr>))"

text \<open>
  A commit on one of the three stores of the world; each attempt is entered in the journal
  of the world under the name of the call.
\<close>

definition demo_commit_to ::
  "string \<Rightarrow> (demo_world \<Rightarrow> demo_store) \<Rightarrow> (demo_store \<Rightarrow> demo_world \<Rightarrow> demo_world)
    \<Rightarrow> demo_world \<Rightarrow> error option \<times> demo_world" where
  "demo_commit_to name sel upd w =
     (case demo_commit (sel w) of
        (err, st) \<Rightarrow> (err, (upd st w)\<lparr>journal := journal (upd st w) @ [name]\<rparr>))"

definition demo_hash :: "bytes \<Rightarrow> Uint256" where
  "demo_hash xs = fold (\<lambda>b h. h * 257 + ucast b + 1) xs 0"

definition demo_header_hash :: "Header \<Rightarrow> Uint256" where
  "demo_header_hash h = ucast (Height h) + 1000"

fun last_current :: "wr list \<Rightarrow> (Uint256 \<times> 32 word) option" where
  "last_current [] = None"
| "last_current (w # ws) =
     (case last_current ws of
        Some r \<Rightarrow> Some r
      | None \<Rightarrow> (case w of WCurrentBlock h hash \<Rightarrow> Some (hash, h) | other \<Rightarrow> None))"

fun find_block_hash :: "32 word \<Rightarrow> wr list \<Rightarrow> Uint256 option" where
  "find_block_hash i [] = None"
| "find_block_hash i (w # ws) =
     (case find_block_hash i ws of
        Some r \<Rightarrow> Some r
      | None \<Rightarrow> (case w of WBlockHash h hash \<Rightarrow> if h = i then Some hash else None | other \<Rightarrow> None))"

fun find_block :: "Uint256 \<Rightarrow> wr list \<Rightarrow> Block option" where
  "find_block hash [] = None"
| "find_block hash (w # ws) =
     (case find_block hash ws of
        Some r \<Rightarrow> Some r
      | None \<Rightarrow> (case w of WBlock b \<Rightarrow> if demo_header_hash (Header b) = hash then Some b else None
                           | other \<Rightarrow> None))"

fun find_state_root :: "32 word \<Rightarrow> wr list \<Rightarrow> Uint256 option" where
  "find_state_root i [] = None"
| "find_state_root i (w # ws) =
     (case find_state_root i ws of
        Some r \<Rightarrow> Some r
      | None \<Rightarrow> (case w of WStateRoot h root \<Rightarrow> if h = i then Some root else None | other \<Rightarrow> None))"

definition on_block :: "(demo_store \<Rightarrow> demo_store) \<Rightarrow> demo_world \<Rightarrow> demo_world" where
  "on_block f w = w\<lparr>blockStore := f (blockStore w)\<rparr>"

definition on_state :: "(demo_store \<Rightarrow> demo_store) \<Rightarrow> demo_world \<Rightarrow> demo_world" where
  "on_state f w = w\<lparr>stateStore := f (stateStore w)\<rparr>"

definition on_event :: "(demo_store \<Rightarrow> demo_store) \<Rightarrow> demo_world \<Rightarrow> demo_world" where
  "on_event f w = w\<lparr>eventStore := f (eventStore w)\<rparr>"

definition demo_hdr :: header_env where
  "demo_hdr = \<lparr>HeaderHash = demo_header_hash, ConsensusType = ''solo'',
               PubkeyID = map (\<lambda>b. char_of (unat b)),
               VerifyMultiSignature = (\<lambda>hash keys m sigs. if int (length sigs) < m then Some (External ''not enough signatures'') else None),
               VbftBlock = (\<lambda>h. Inl (External ''no vbft payload'')),
               AddressFromBookkeepers = (\<lambda>keys. if keys = [] then Inl (External ''no bookkeepers'') else Inr (ucast (demo_hash (concat keys))))\<rparr>"

definition demo_bs :: "demo_world block_store" where
  "demo_bs = \<lparr>
     bsGetHeader = (\<lambda>w hash. case find_block hash (durable (blockStore w)) of
                                 None \<Rightarrow> (None, Some ErrNotFound) | Some b \<Rightarrow> (Some (Header b), None)),
     bsGetBlockHash = (\<lambda>w i. case find_block_hash i (durable (blockStore w)) of
                                 None \<Rightarrow> Inl ErrNotFound | Some h \<Rightarrow> Inr h),
     bsGetBlock = (\<lambda>w hash. case find_block hash (durable (blockStore w)) of
                                 None \<Rightarrow> Inl ErrNotFound | Some b \<Rightarrow> Inr b),
     bsGetCurrentBlock = (\<lambda>w. case last_current (durable (blockStore w)) of
                                  None \<Rightarrow> Inl ErrNotFound | Some r \<Rightarrow> Inr r),
     bsNewBatch = on_block demo_new_batch,
     bsSaveHeaderIndexList = (\<lambda>start hashes w. (None, on_block (demo_put (WEvent ''header index list'')) w)),
     bsSaveCurrentBlock = (\<lambda>h hash w. (None, on_block (demo_put (WCurrentBlock h hash)) w)),
     bsSaveBlockHash = (\<lambda>h hash. on_block (demo_put (WBlockHash h hash))),
     bsSaveBlock = (\<lambda>b w. (None, on_block (demo_put (WBlock b)) w)),
     bsCommitTo = demo_commit_to ''blockStore.CommitTo'' blockStore (\<lambda>st w. w\<lparr>blockStore := st\<rparr>)\<rparr>"

definition demo_ss :: "(demo_world, demo_overlay) state_store" where
  "demo_ss = \<lparr>
     ssNewOverlayDB = (\<lambda>w. \<lparr>writes = [], dbErr = None, trace = []\<rparr>),
     ssGetCurrentBlock = (\<lambda>w. case last_current (durable (stateStore w)) of
                                  None \<Rightarrow> Inl ErrNotFound | Some r \<Rightarrow> Inr r),
     ssGetCurrentLockedAddress = (\<lambda>w. Inr []),
     ssGetCurrentLockedKeys = (\<lambda>w. Inr []),
     ssGetStateMerkleRoot = (\<lambda>w i. case find_state_root i (durable (stateStore w)) of
                                  None \<Rightarrow> (0, Some ErrNotFound) | Some r \<Rightarrow> (r, None)),
     ssGetStateMerkleRootWithNewHash = (\<lambda>w hash. (of_nat (length (durable (stateStore w))) + 1) * 1000003 + hash),
     ssGetBlockRootWithNewTxRoots = (\<lambda>w roots. sum_list roots),
     ssNewBatch = on_state demo_new_batch,
     ssAddStateMerkleTreeRoot = (\<lambda>h hash w. (None, on_state (demo_put (WStateRoot h hash)) w)),
     ssAddBlockMerkleTreeRoot = (\<lambda>root w. (None, on_state (demo_put (WTxRoot root)) w)),
     ssSaveCurrentBlock = (\<lambda>h hash w. (None, on_state (demo_put (WCurrentBlock h hash)) w)),
     ssAddBlockShardEvents = (\<lambda>h evs. on_state (demo_put (WEvent ''shard events''))),
     ssBatchDeleteRawKey = (\<lambda>k. on_state (demo_put (WDelete k))),
     ssBatchPutRawKeyVal = (\<lambda>k v. on_state (demo_put (WPut k v))),
     ssCommitTo = demo_commit_to ''stateStore.CommitTo'' stateStore (\<lambda>st w. w\<lparr>stateStore := st\<rparr>)\<rparr>"

definition demo_es :: "demo_world event_store" where
  "demo_es = \<lparr>
     esNewBatch = on_event demo_new_batch,
     esSaveEventNotifyByTx = (\<lambda>hash n w. (None, on_event (demo_put (WEvent ''notify by tx'')) w)),
     esSaveEventNotifyByBlock = (\<lambda>h txs w. (None, on_event (demo_put (WEvent ''notify by block'')) w)),
     esSaveCurrentBlock = (\<lambda>h hash w. (None, on_event (demo_put (WCurrentBlock h hash)) w)),
     esSaveContractMetaDataEvent = (\<lambda>e w. (None, on_event (demo_put (WEvent ''meta data'')) w)),
     esSaveContractEvent = (\<lambda>e w. (None, on_event (demo_put (WEvent ''contract'')) w)),
     esCommitTo = demo_commit_to ''eventStore.CommitTo'' eventStore (\<lambda>st w. w\<lparr>eventStore := st\<rparr>)\<rparr>"

definition demo_misc :: "demo_world misc_env" where
  "demo_misc = \<lparr>
     EnableEventLog = False,
     ShardMgmtContractAddress = 7,
     ShardSysMsgContractAddress = 8,
     PushSmartCodeEvent = (\<lambda>hash n w. w\<lparr>journal := journal w @ [''smart code event'']\<rparr>),
     DefActorPublisher = Some (\<lambda>b evs m w. w\<lparr>journal := journal w @ [''save block complete'']\<rparr>),
     saveCrossShardGovernanceData = (\<lambda>b evs ws w. Ret (None, w)),
     saveParentShardConfig = (\<lambda>b w. Ret (None, w))\<rparr>"

definition traced :: "string \<Rightarrow> demo_overlay \<Rightarrow> demo_overlay" where
  "traced str ov = ov\<lparr>trace := trace ov @ [str]\<rparr>"

definition demo_write :: "bytes \<Rightarrow> bytes \<Rightarrow> demo_overlay \<Rightarrow> demo_overlay" where
  "demo_write k v ov = ov\<lparr>writes := writes ov @ [(k, v)]\<rparr>"

definition demo_invoke ::
  "Transaction \<Rightarrow> demo_overlay exec_state \<Rightarrow> TransactionNotify
    \<Rightarrow> error option \<times> demo_overlay exec_state \<times> TransactionNotify" where
  "demo_invoke tx st notify =
     (if TxBody tx = [255]
      then (Some (External ''store read failed''),
            st\<lparr>overlay := (traced ''invoke'' (overlay st))\<lparr>dbErr := Some (External ''store read failed'')\<rparr>\<rparr>, notify)
      else if TxBody tx = [254]
      then (Some (External ''vm fault''), st\<lparr>overlay := traced ''invoke'' (overlay st)\<rparr>, notify)
      else (None,
            st\<lparr>overlay := demo_write (ST_STORAGE # TxBody tx) [1] (traced ''invoke'' (overlay st)),
               lockedAddress := lockedAddress st \<union> set (map ucast (TxBody tx))\<rparr>,
            notify\<lparr>ContractEvent := (ContractEvent notify)\<lparr>State := 1\<rparr>\<rparr>))"

definition demo_ex :: "(demo_world, demo_overlay) exec_env" where
  "demo_ex = \<lparr>
     TxHashOf = (\<lambda>tx. demo_hash (TxBody tx)),
     GAS_TABLE = (\<lambda>w. Map.empty),
     refreshGlobalParam = (\<lambda>cfg ov s. (None, stores s)),
     NewCacheDB = (\<lambda>ov. ov),
     NewXShardDB = (\<lambda>ov. ov),
     cacheReset = traced ''reset'',
     cacheCommit = traced ''commit'',
     overlayError = dbErr,
     HandleDeployTransaction = (\<lambda>s g tx h ov ev.
        (None, demo_write (ST_CONTRACT # TxBody tx) [1] (traced ''deploy'' ov), ev\<lparr>State := 1\<rparr>)),
     HandleChangeMetadataTransaction = (\<lambda>s g tx h ov ev. (None, traced ''metadata'' ov, ev\<lparr>State := 1\<rparr>)),
     HandleInvokeTransaction = (\<lambda>s g tx h. demo_invoke tx),
     HandleShardCallTransaction = (\<lambda>s g msgs h st notify.
        (None, st\<lparr>overlay := traced ''shardcall'' (overlay st)\<rparr>,
         notify\<lparr>ContractEvent := (ContractEvent notify)\<lparr>State := 1\<rparr>, ShardMsg := msgs\<rparr>)),
     SetXShardMsgInBlock = (\<lambda>h msgs. traced ''shard msgs''),
     SetLockedAddress = (\<lambda>addrs. demo_write [0x38] (map ucast (sort addrs))),
     SetLockedKeys = (\<lambda>keys. demo_write [0x39] (concat (sort keys))),
     xshardCommit = traced ''xshard commit'',
     ChangeHash = (\<lambda>ov. demo_hash (concat (map (\<lambda>(k, v). k @ v) (writes ov)))),
     GetWriteSet = writes,
     NewIterator = (\<lambda>ov prefix. (filter (\<lambda>(k, v). take (length prefix) k = prefix) (writes ov), None)),
     sha256 = demo_hash\<rparr>"

definition demo_env :: "(demo_world, demo_overlay) env" where
  "demo_env = \<lparr>hdr = demo_hdr, bs = demo_bs, ss = demo_ss, es = demo_es, misc = demo_misc, ex = demo_ex\<rparr>"

definition empty_store :: demo_store where
  "empty_store = \<lparr>durable = [], batch = [], failing = False\<rparr>"

definition empty_world :: demo_world where
  "empty_world = \<lparr>blockStore = empty_store, stateStore = empty_store, eventStore = empty_store, journal = []\<rparr>"

definition new_ledger :: "demo_world LedgerStoreImp" where
  "new_ledger = \<lparr>stores = empty_world, storedIndexCount = 0, currBlockHeight = 0, currBlockHash = 0,
                  headerCache = Map.empty, headerIndex = Map.empty,
                  vbftPeerInfoheader = Map.empty, vbftPeerInfoblock = Map.empty,
                  stateHashCheckHeight = 2\<rparr>"

definition demo_header :: "32 word \<Rightarrow> Header" where
  "demo_header h = \<lparr>Version = 0, ShardID = 0, Height = h, ParentHeight = 0,
                    PrevBlockHash = (if h = 0 then 0 else demo_header_hash \<lparr>Version = 0, ShardID = 0, Height = h - 1, ParentHeight = 0, PrevBlockHash = 0, TransactionsRoot = 0, BlockRoot = 0, Timestamp = 0, ConsensusData = 0, ConsensusPayload = [], NextBookkeeper = 0, Bookkeepers = [], SigData = []\<rparr>),
                    TransactionsRoot = ucast h + 1, BlockRoot = ucast h + 1, Timestamp = h + 100,
                    ConsensusData = 0, ConsensusPayload = [],
                    NextBookkeeper = ucast (demo_hash [1]), Bookkeepers = [[1]], SigData = [[1]]\<rparr>"

definition invoke_tx :: "bytes \<Rightarrow> Transaction" where
  "invoke_tx body = \<lparr>TxType = Invoke, Payload = OtherPayload [], TxBody = body\<rparr>"

definition shard_call_tx :: "bytes \<Rightarrow> Transaction" where
  "shard_call_tx body = \<lparr>TxType = ShardCall, Payload = ShardCallPayload [body], TxBody = body\<rparr>"

definition genesis_block :: Block where
  "genesis_block = \<lparr>Header = demo_header 0, Transactions = [], ShardTxs = []\<rparr>"

definition block_one :: Block where
  "block_one = \<lparr>Header = demo_header 1, Transactions = [invoke_tx [3], invoke_tx [2]],
                ShardTxs = [(5, [\<lparr>Tx = shard_call_tx [50]\<rparr>]), (2, [\<lparr>Tx = shard_call_tx [20]\<rparr>, \<lparr>Tx = shard_call_tx [21]\<rparr>])]\<rparr>"

definition order_a :: range_order where
  "order_a = \<lparr>shardOrder = unat, addrOrder = unat, keyOrder = length\<rparr>"

definition order_b :: range_order where
  "order_b = \<lparr>shardOrder = (\<lambda>x. 100 - unat x), addrOrder = (\<lambda>x. 100 - unat x), keyOrder = (\<lambda>k. 0)\<rparr>"

definition ledger_at_5 :: "demo_world LedgerStoreImp" where
  "ledger_at_5 = new_ledger\<lparr>currBlockHeight := 5, currBlockHash := 1005\<rparr>"

definition block_at :: "32 word \<Rightarrow> Block" where
  "block_at h = \<lparr>Header = demo_header h, Transactions = [], ShardTxs = []\<rparr>"

text \<open>
  Two environments that differ at most in the consensus collaborators other than the
  header hash: the consensus type, \<open>PubkeyID\<close>, \<open>VerifyMultiSignature\<close>, \<open>VbftBlock\<close> and
  \<open>AddressFromBookkeepers\<close>.
\<close>

definition same_stores :: "('w, 'o) env \<Rightarrow> ('w, 'o) env \<Rightarrow> bool" where
  "same_stores env' env \<longleftrightarrow>
     bs env' = bs env \<and> ss env' = ss env \<and> es env' = es env \<and> misc env' = misc env \<and>
     ex env' = ex env \<and> HeaderHash (hdr env') = HeaderHash (hdr env)"

text \<open>
  A genesis block that no bookkeeper signed and whose block root is not the root of the
  ledger, and the result of executing a block that writes nothing.
\<close>

definition unsigned_genesis :: Block where
  "unsigned_genesis =
     \<lparr>Header = (demo_header 0)\<lparr>Bookkeepers := [], SigData := [], BlockRoot := 12345\<rparr>,
      Transactions = [], ShardTxs = []\<rparr>"

definition empty_result :: ExecuteResult where
  "empty_result = zero_result\<lparr>WriteSet := Some []\<rparr>"

text \<open>
  The header chain invariant, in exact arithmetic: the height is the successor of the
  previous header's height and the timestamp is later.
\<close>

definition chained :: "Header \<Rightarrow> Header \<Rightarrow> bool" where
  "chained prevHeader header \<longleftrightarrow>
     unat (Height header) = unat (Height prevHeader) + 1 \<and> Timestamp prevHeader < Timestamp header"

text \<open>
  Ledgers and headers for the header chain: a ledger that knows the genesis header, a
  header of height 1 whose timestamp is not later than the genesis header's, a ledger at
  height 5 that holds a header of height 2 in its cache, a block of height 3 on top of it
  with an earlier timestamp, and a ledger at height 5 whose state store holds the state
  root 777 for height 3.
\<close>

definition ledger_hdr :: "demo_world LedgerStoreImp" where
  "ledger_hdr = new_ledger\<lparr>headerCache := [1000 \<mapsto> demo_header 0], headerIndex := [0 \<mapsto> 1000]\<rparr>"

definition late_header :: Header where
  "late_header = (demo_header 1)\<lparr>Timestamp := 7\<rparr>"

definition ledger_stale :: "demo_world LedgerStoreImp" where
  "ledger_stale = ledger_at_5\<lparr>headerCache := [1002 \<mapsto> demo_header 2]\<rparr>"

definition stale_block :: Block where
  "stale_block = \<lparr>Header = (demo_header 3)\<lparr>Timestamp := 50\<rparr>, Transactions = [], ShardTxs = []\<rparr>"

definition ledger_rooted :: "demo_world LedgerStoreImp" where
  "ledger_rooted =
     ledger_at_5\<lparr>stores := empty_world\<lparr>stateStore := empty_store\<lparr>durable := [WStateRoot 3 777]\<rparr>\<rparr>\<rparr>"

text \<open>
  The outcomes of the three commits of \<open>submitBlock\<close> in the order in which the source
  calls them, from the ledger \<open>s1\<close> at which the commit phase starts: the block store is
  committed on the world of \<open>s1\<close>, the event store on the world that the block store's
  commit leaves, and the state store on the world that the event store's commit leaves.
\<close>

definition after_block_commit :: "('w, 'o) env \<Rightarrow> 'w LedgerStoreImp \<Rightarrow> error option \<times> 'w" where
  "after_block_commit env s1 = bsCommitTo (bs env) (stores s1)"

definition after_event_commit :: "('w, 'o) env \<Rightarrow> 'w LedgerStoreImp \<Rightarrow> error option \<times> 'w" where
  "after_event_commit env s1 = esCommitTo (es env) (snd (after_block_commit env s1))"

definition after_state_commit :: "('w, 'o) env \<Rightarrow> 'w LedgerStoreImp \<Rightarrow> error option \<times> 'w" where
  "after_state_commit env s1 = ssCommitTo (ss env) (snd (after_event_commit env s1))"

text \<open>The in-memory pointer to the current block is the same in both ledgers.\<close>

definition same_pointer :: "'w LedgerStoreImp \<Rightarrow> 'w LedgerStoreImp \<Rightarrow> bool" where
  "same_pointer s' s \<longleftrightarrow> currBlockHeight s' = currBlockHeight s \<and> currBlockHash s' = currBlockHash s"

text \<open>A ledger whose state store fails to commit.\<close>

definition broken_ledger :: "demo_world LedgerStoreImp" where
  "broken_ledger = new_ledger\<lparr>stores := empty_world\<lparr>stateStore := empty_store\<lparr>failing := True\<rparr>\<rparr>\<rparr>"

text \<open>
  \<open>ov\<close> is the overlay from which \<open>executeBlock\<close> reads its result: the overlay opened on the
  state store, wrapped by the cache and the cross-shard DB, after all transactions of the
  block have run in the world \<open>w1\<close> and the cross-shard DB has been committed.
\<close>

definition final_overlay ::
  "('w, 'o) env \<Rightarrow> range_order \<Rightarrow> 'w LedgerStoreImp \<Rightarrow> Block \<Rightarrow> 'w \<Rightarrow> 'o \<Rightarrow> bool" where
  "final_overlay env \<rho> s block w1 ov \<longleftrightarrow>
     (\<exists>st0 acc.
        overlay st0 = NewXShardDB (ex env) (NewCacheDB (ex env) (ssNewOverlayDB (ss env) (stores s))) \<and>
        exec_block_txs env \<rho> (s\<lparr>stores := w1\<rparr>) (GAS_TABLE (ex env) w1) block (st0, [], []) = Ret (acc, None) \<and>
        ov = commit_xshard env \<rho> block acc)"

text \<open>
  The bytes that \<open>accumulateHash\<close> writes for the entries under one prefix: key, value,
  key, value, in the order of the iterator.
\<close>

definition namespace_bytes :: "('w, 'o) env \<Rightarrow> 'o \<Rightarrow> 8 word \<Rightarrow> bytes" where
  "namespace_bytes env ov prefix = concat (map (\<lambda>(key, val). key @ val) (fst (NewIterator (ex env) ov [prefix])))"

text \<open>A deploy transaction, and a block of a given height that deploys and invokes.\<close>

definition deploy_tx :: "bytes \<Rightarrow> Transaction" where
  "deploy_tx body = \<lparr>TxType = Deploy, Payload = OtherPayload [], TxBody = body\<rparr>"

definition tx_block :: "32 word \<Rightarrow> Block" where
  "tx_block h = \<lparr>Header = demo_header h, Transactions = [deploy_tx [9], invoke_tx [3]], ShardTxs = []\<rparr>"

text \<open>
  The order of execution in the words of the specification: first the transactions of the
  inbound groups, the groups in ascending order of their shard id and each group in its
  own order, then the transactions of the block in block order. A transaction is paired
  with \<open>True\<close> when it comes from a group.
\<close>

definition spec_execution_order :: "Block \<Rightarrow> (bool \<times> Transaction) list" where
  "spec_execution_order block =
     map (Pair True) (concat (map (shard_txs_of block) (sorted_list_of_set (fst ` set (ShardTxs block))))) @
     map (Pair False) (Transactions block)"

text \<open>
  Handling one transaction without touching the cache scope: the type check of the loop
  it belongs to, then \<open>HandleTransaction\<close>, then the gathering of its messages and its
  notification.
\<close>

definition spec_handle ::
  "('w, 'o) env \<Rightarrow> 'w LedgerStoreImp \<Rightarrow> gas_table \<Rightarrow> Header \<Rightarrow> bool \<Rightarrow> Transaction
    \<Rightarrow> 'o loop_state \<Rightarrow> ('o loop_state \<times> error option) go" where
  "spec_handle env store gasTable header inbound tx acc =
     (case acc of (st, shardNotify, notifies) \<Rightarrow>
        if inbound \<and> TxType tx \<noteq> ShardCall \<or> \<not> inbound \<and> TxType tx = ShardCall
        then Ret (acc, Some (Errorf ''handleTransaction failed tx type''))
        else case HandleTransaction env store gasTable header tx st of
          Panic \<Rightarrow> Panic
        | Ret (st2, notify, Some e) \<Rightarrow> Ret ((st2, shardNotify, notifies), Some e)
        | Ret (st2, None, None) \<Rightarrow> Panic
        | Ret (st2, Some notify, None) \<Rightarrow>
            Ret ((st2, shardNotify @ ShardMsg notify, notifies @ [ContractEvent notify]), None))"

text \<open>\<open>cache.Reset()\<close> on the loop state.\<close>

definition reset_scope :: "('w, 'o) env \<Rightarrow> 'o loop_state \<Rightarrow> 'o loop_state" where
  "reset_scope env acc =
     (case acc of (st, shardNotify, notifies) \<Rightarrow>
        (st\<lparr>overlay := cacheReset (ex env) (overlay st)\<rparr>, shardNotify, notifies))"

text \<open>
  Executing a sequence of transactions in the words of the specification: for each in
  turn, reset the per-transaction scope of the cache, then handle it; stop at the first
  error.
\<close>

fun spec_execute ::
  "('w, 'o) env \<Rightarrow> 'w LedgerStoreImp \<Rightarrow> gas_table \<Rightarrow> Header \<Rightarrow> (bool \<times> Transaction) list
    \<Rightarrow> 'o loop_state \<Rightarrow> ('o loop_state \<times> error option) go" where
  "spec_execute env store gasTable header [] acc = Ret (acc, None)"
| "spec_execute env store gasTable header (x # rest) acc =
     (case spec_handle env store gasTable header (fst x) (snd x) (reset_scope env acc) of
        Ret (acc1, None) \<Rightarrow> spec_execute env store gasTable header rest acc1
      | stopped \<Rightarrow> stopped)"

text \<open>The execution state at the start of the loops, with nothing locked.\<close>

definition demo_st0 :: "demo_overlay exec_state" where
  "demo_st0 = \<lparr>overlay = \<lparr>writes = [], dbErr = None, trace = []\<rparr>, lockedAddress = {}, lockedKeys = {}\<rparr>"



text \<open>
  What the handler that \<open>HandleTransaction\<close> dispatches to returns when it is given the
  initial notification: its error, the execution state it leaves and the notification as
  it leaves it. \<open>None\<close> when no handler runs: the transaction is of none of the four types,
  or it is a \<open>ShardCall\<close> whose payload is of another type.
\<close>

definition handler_outcome ::
  "('w, 'o) env \<Rightarrow> 'w LedgerStoreImp \<Rightarrow> gas_table \<Rightarrow> Header \<Rightarrow> Transaction \<Rightarrow> 'o exec_state
    \<Rightarrow> (error option \<times> 'o exec_state \<times> TransactionNotify) option" where
  "handler_outcome env store gasTable header tx st =
     (let notify = initial_notify (TxHashOf (ex env) tx) in
      case TxType tx of
        Deploy \<Rightarrow>
          (case HandleDeployTransaction (ex env) store gasTable tx header (overlay st) (ContractEvent notify) of
             (err, ov, events) \<Rightarrow> Some (err, st\<lparr>overlay := ov\<rparr>, notify\<lparr>ContractEvent := events\<rparr>))
      | MetaData \<Rightarrow>
          (case HandleChangeMetadataTransaction (ex env) store gasTable tx header (overlay st) (ContractEvent notify) of
             (err, ov, events) \<Rightarrow> Some (err, st\<lparr>overlay := ov\<rparr>, notify\<lparr>ContractEvent := events\<rparr>))
      | Invoke \<Rightarrow> Some (HandleInvokeTransaction (ex env) store gasTable tx header st notify)
      | ShardCall \<Rightarrow>
          (case Payload tx of
             ShardCallPayload msgs \<Rightarrow> Some (HandleShardCallTransaction (ex env) store gasTable msgs header st notify)
           | OtherPayload other \<Rightarrow> None)
      | OtherTxType t \<Rightarrow> None)"

text \<open>\<open>cache.Commit()\<close>, which follows every handler but the one for \<open>MetaData\<close>.\<close>

definition after_commit :: "('w, 'o) env \<Rightarrow> Transaction \<Rightarrow> 'o exec_state \<Rightarrow> 'o exec_state" where
  "after_commit env tx st1 =
     (if TxType tx = MetaData then st1 else st1\<lparr>overlay := cacheCommit (ex env) (overlay st1)\<rparr>)"

text \<open>A transaction of a type that has no handler.\<close>

definition bookkeeper_tx :: Transaction where
  "bookkeeper_tx = \<lparr>TxType = OtherTxType 2, Payload = OtherPayload [], TxBody = [7]\<rparr>"

text \<open>
  The heights that the loop of \<open>recoverStore\<close> visits, and the heights that the state
  store lacks when its current height is \<open>stateHeight\<close> and the block store's is
  \<open>blockHeight\<close>.
\<close>

definition replayed_heights :: "32 word \<Rightarrow> 32 word \<Rightarrow> 32 word list" where
  "replayed_heights stateHeight blockHeight = map of_nat [unat stateHeight ..< unat blockHeight]"

definition missing_heights :: "32 word \<Rightarrow> 32 word \<Rightarrow> 32 word list" where
  "missing_heights stateHeight blockHeight = map of_nat [unat stateHeight + 1 ..< unat blockHeight + 1]"

text \<open>The iterations of \<open>recoverStore\<close> for a list of heights, one after the other.\<close>

fun replay ::
  "('w, 'o) env \<Rightarrow> (32 word \<Rightarrow> range_order) \<Rightarrow> 32 word list \<Rightarrow> 'w LedgerStoreImp
    \<Rightarrow> ('w LedgerStoreImp \<times> error option) go" where
  "replay env \<rho> [] s = Ret (s, None)"
| "replay env \<rho> (i # hs) s =
     (case recover_height env (\<rho> i) i s of
        Ret (s1, None) \<Rightarrow> replay env \<rho> hs s1
      | stopped \<Rightarrow> stopped)"

text \<open>
  A ledger at height 0: the three stores hold the genesis block and what its execution
  wrote.
\<close>

definition world_0 :: demo_world where
  "world_0 =
     \<lparr>blockStore = empty_store\<lparr>durable := [WCurrentBlock 0 1000, WBlockHash 0 1000, WBlock genesis_block]\<rparr>,
      stateStore = empty_store\<lparr>durable := [WStateRoot 0 14707, WTxRoot 1, WCurrentBlock 0 1000,
                                            WEvent ''shard events'', WDelete [56], WDelete [57]]\<rparr>,
      eventStore = empty_store\<lparr>durable := [WCurrentBlock 0 1000]\<rparr>,
      journal = []\<rparr>"

definition ledger_0 :: "demo_world LedgerStoreImp" where
  "ledger_0 = new_ledger\<lparr>stores := world_0, currBlockHash := 1000, headerIndex := [0 \<mapsto> 1000]\<rparr>"

text \<open>
  The world in which \<open>SubmitBlock\<close> is cut off between the commit of the event store and
  the commit of the state store, and what is left of a world after the process has
  stopped: the open batches are lost.
\<close>

definition cut_before_state_commit ::
  "('w, 'o) env \<Rightarrow> range_order \<Rightarrow> 'w LedgerStoreImp \<Rightarrow> Block \<Rightarrow> 'w" where
  "cut_before_state_commit env \<rho> s block =
     (case ExecuteBlock env \<rho> s block of
        (w, Ret (result, None)) \<Rightarrow>
          (case save_batches env block result (s\<lparr>stores := w\<rparr>) of
             Ret (s1, None) \<Rightarrow> snd (after_event_commit env s1)
           | other \<Rightarrow> w)
      | (w, other) \<Rightarrow> w)"

definition uninterrupted ::
  "('w, 'o) env \<Rightarrow> range_order \<Rightarrow> 'w LedgerStoreImp \<Rightarrow> Block \<Rightarrow> ('w LedgerStoreImp \<times> error option) go" where
  "uninterrupted env \<rho> s block =
     (case ExecuteBlock env \<rho> s block of
        (w, Panic) \<Rightarrow> Panic
      | (w, Ret (result, Some e)) \<Rightarrow> Ret (s\<lparr>stores := w\<rparr>, Some e)
      | (w, Ret (result, None)) \<Rightarrow> SubmitBlock env (s\<lparr>stores := w\<rparr>) block result)"

definition after_stop :: "demo_world \<Rightarrow> demo_world" where
  "after_stop w = \<lparr>blockStore = (blockStore w)\<lparr>batch := []\<rparr>, stateStore = (stateStore w)\<lparr>batch := []\<rparr>,
                   eventStore = (eventStore w)\<lparr>batch := []\<rparr>, journal = []\<rparr>"

definition crashed_world :: demo_world where
  "crashed_world = after_stop (cut_before_state_commit demo_env order_a ledger_0 (tx_block 1))"

definition crashed_ledger :: "demo_world LedgerStoreImp" where
  "crashed_ledger = fst (loadCurrentBlock demo_env (new_ledger\<lparr>stores := crashed_world\<rparr>))"

text \<open>What the execution of the block of height 1 returns on the ledger at height 0.\<close>

definition result_1 :: ExecuteResult where
  "result_1 =
     \<lparr>WriteSet = Some [([4, 9], [1]), ([5, 3], [1]), ([56], [3]), ([57], [])],
      Hash = 95896834611352708244, MerkleRoot = 0,
      Notify = [\<lparr>TxHash = 10, State = 1, GasConsumed = 0, NotifyInfos = [], SourceTxHash = []\<rparr>,
                \<lparr>TxHash = 4, State = 1, GasConsumed = 0, NotifyInfos = [], SourceTxHash = []\<rparr>],
      ShardNotify = []\<rparr>"


section \<open>Properties\<close>

subsection \<open>Height ordering of \<open>SubmitBlock\<close>\<close>

text \<open>
  Claim C2. \<open>SubmitBlock\<close> on a block at or below the current height returns nil and
  leaves the whole ledger, stores included, as it was. On a block that is neither at or
  below the current height nor the next height it returns an error and leaves the ledger
  as it was. Whenever the call does anything else (it changes the ledger, returns another
  outcome or panics), the block is at the current height plus one.
\<close>

theorem SubmitBlock_height_order:
  "(Height (Header block) \<le> currBlockHeight s \<longrightarrow> SubmitBlock env s block result = Ret (s, None)) \<and>
   (\<not> Height (Header block) \<le> currBlockHeight s \<and> Height (Header block) \<noteq> currBlockHeight s + 1
      \<longrightarrow> (\<exists>e. SubmitBlock env s block result = Ret (s, Some e))) \<and>
   (SubmitBlock env s block result \<noteq> Ret (s, None) \<and>
    (\<forall>e. SubmitBlock env s block result \<noteq> Ret (s, Some e))
      \<longrightarrow> Height (Header block) = currBlockHeight s + 1)"
  by (auto simp: SubmitBlock_def GetCurrentBlockHeight_def Let_def)

theorem SubmitBlock_height_order_witness:
  "SubmitBlock demo_env ledger_at_5 (block_at 3) zero_result = Ret (ledger_at_5, None) \<and>
   (\<exists>e. SubmitBlock demo_env ledger_at_5 (block_at 9) zero_result = Ret (ledger_at_5, Some e))"
proof -
  have low: "Height (Header (block_at 3)) \<le> currBlockHeight ledger_at_5"
    by (simp add: block_at_def demo_header_def ledger_at_5_def new_ledger_def)
  have gap: "\<not> Height (Header (block_at 9)) \<le> currBlockHeight ledger_at_5 \<and>
             Height (Header (block_at 9)) \<noteq> currBlockHeight ledger_at_5 + 1"
    by (simp add: block_at_def demo_header_def ledger_at_5_def new_ledger_def)
  show ?thesis
    using SubmitBlock_height_order [of "block_at 3" ledger_at_5 demo_env zero_result]
      SubmitBlock_height_order [of "block_at 9" ledger_at_5 demo_env zero_result] low gap
    by blast
qed

subsection \<open>Unfolding the concrete instance\<close>

lemmas demo_defs = demo_env_def demo_hdr_def demo_bs_def demo_ss_def demo_es_def demo_misc_def
  demo_ex_def demo_put_def demo_new_batch_def demo_commit_def demo_commit_to_def demo_header_hash_def on_block_def
  on_state_def on_event_def empty_store_def empty_world_def new_ledger_def demo_header_def

lemmas commit_defs = save_batches_def commit_stores_def saveBlockToBlockStore_def
  saveHeaderIndexList_def saveBlockToStateStore_def saveShardState_def writeSetEntry_def
  saveEventNotify_def saveBlockToEventStore_def saveCrossShardDataToStore_def
  saveContractMetaData_def saveCrossShardDeployContractEventData_def BlockHash_def
  publish_complete_def and_then_def wrap_def wrap_go_def on_store_def on_store_go_def
  setCurrentBlock_def setHeaderIndex_def extractShardEvents_def extractSourceAndShardTxHash_def
  HEADER_INDEX_BATCH_SIZE_def

subsection \<open>The genesis block\<close>

lemma GetBlockRoot_genesis:
  "GetBlockRootWithNewTxRoots env s 0 [r] \<noteq> Panic"
proof (cases "currBlockHeight s = 0")
  case True
  then show ?thesis by (simp add: GetBlockRootWithNewTxRoots_def Let_def)
next
  case False
  then have "0 < currBlockHeight s" by (simp add: word_gt_0)
  then show ?thesis by (simp add: GetBlockRootWithNewTxRoots_def Let_def)
qed

lemma same_stores_eqs:
  assumes "same_stores env' env"
  shows "bs env' = bs env" "ss env' = ss env" "es env' = es env" "misc env' = misc env"
    "ex env' = ex env" "HeaderHash (hdr env') = HeaderHash (hdr env)"
  using assms by (simp_all add: same_stores_def)

lemma same_stores_save_batches:
  assumes "same_stores env' env"
  shows "save_batches env' block result s = save_batches env block result s"
  unfolding save_batches_def saveBlockToBlockStore_def saveHeaderIndexList_def
    saveBlockToStateStore_def saveShardState_def writeSetEntry_def saveEventNotify_def
    saveBlockToEventStore_def saveCrossShardDataToStore_def saveContractMetaData_def
    saveCrossShardDeployContractEventData_def BlockHash_def same_stores_eqs [OF assms]
  by (rule refl)

lemma same_stores_commit_stores:
  assumes "same_stores env' env"
  shows "commit_stores env' block result s = commit_stores env block result s"
  unfolding commit_stores_def publish_complete_def BlockHash_def same_stores_eqs [OF assms]
  by (rule refl)

lemma same_stores_submitBlock:
  assumes "same_stores env' env"
  shows "submitBlock env' s block result = submitBlock env s block result"
  unfolding submitBlock_def GetBlockRootWithNewTxRoots_def same_stores_eqs [OF assms]
    same_stores_save_batches [OF assms] same_stores_commit_stores [OF assms]
  by (rule refl)

text \<open>
  Claim C10. For a header of height 0, \<open>verifyHeader\<close> returns the peer table it was given
  and no error, whatever the header, the ledger and the collaborators are: it looks at no
  signature, bookkeeper or timestamp. For a block of height 0, \<open>submitBlock\<close> never takes
  the block-root branch: it goes on to fill the batches and to commit. And \<open>submitBlock\<close>
  gives the same outcome under any two environments that differ only in the collaborators
  of header verification, so the genesis block is committed without any of them being
  asked.
\<close>

theorem genesis_exception:
  "(Height header = 0 \<longrightarrow> verifyHeader env s header info = (info, None)) \<and>
   (Height (Header block) = 0 \<longrightarrow>
      submitBlock env s block result =
        and_then (save_batches env block result s) (\<lambda>s1. Ret (commit_stores env block result s1)) \<and>
      (\<forall>env'. same_stores env' env \<longrightarrow> submitBlock env' s block result = submitBlock env s block result))"
proof (intro conjI impI allI)
  assume "Height header = 0"
  then show "verifyHeader env s header info = (info, None)" by (simp add: verifyHeader_def)
next
  assume h: "Height (Header block) = 0"
  show "submitBlock env s block result =
        and_then (save_batches env block result s) (\<lambda>s1. Ret (commit_stores env block result s1))"
    using h GetBlockRoot_genesis [of env s "TransactionsRoot (Header block)"]
    by (simp add: submitBlock_def split: go.splits)
next
  fix env' :: "('a, 'b) env"
  assume "same_stores env' env"
  then show "submitBlock env' s block result = submitBlock env s block result"
    by (simp add: same_stores_submitBlock)
qed

theorem genesis_exception_witness:
  "verifyHeader demo_env new_ledger (Header unsigned_genesis) Map.empty = (Map.empty, None) \<and>
   (\<exists>s'. submitBlock demo_env new_ledger unsigned_genesis empty_result = Ret (s', None) \<and>
         currBlockHeight s' = 0 \<and> currBlockHash s' = 1000)"
proof -
  have h: "Height (Header unsigned_genesis) = 0"
    by (simp add: unsigned_genesis_def demo_header_def)
  show ?thesis
    using genesis_exception [of "Header unsigned_genesis" demo_env new_ledger Map.empty
        unsigned_genesis empty_result] h
    by (simp add: demo_defs commit_defs unsigned_genesis_def empty_result_def zero_result_def
        List.map_filter_def)
qed

subsection \<open>The header chain\<close>

lemma verifyHeader_vbft_error:
  "verifyHeader_vbft h header info = (info', Some e) \<Longrightarrow> info' = info"
  by (auto simp: verifyHeader_vbft_def Let_def split: if_splits option.splits sum.splits)

lemma verifyHeader_solo_error:
  "verifyHeader_solo h prev header info = (info', Some e) \<Longrightarrow> info' = info"
  by (auto simp: verifyHeader_solo_def Let_def split: if_splits option.splits sum.splits)

lemma verifyHeader_error:
  "verifyHeader env s header info = (info', Some e) \<Longrightarrow> info' = info"
  by (auto simp: verifyHeader_def split: if_splits option.splits prod.splits
      dest: verifyHeader_vbft_error verifyHeader_solo_error)

lemma word_succ_unat:
  fixes a b :: "32 word"
  assumes "a + 1 = b" and "b \<noteq> 0"
  shows "unat b = unat a + 1"
proof -
  have "1 + a \<noteq> 0" using assms by (simp add: add.commute)
  then show ?thesis using unatSuc [of a] assms by (simp add: add.commute)
qed

lemma verifyHeader_ok:
  assumes "verifyHeader env s header info = (info', None)" and "Height header \<noteq> 0"
  shows "\<exists>prev. fst (GetHeaderByHash env s (PrevBlockHash header)) = Some prev \<and> chained prev header"
  using assms
  by (auto simp: verifyHeader_def chained_def word_succ_unat not_le
      split: if_splits option.splits prod.splits)

lemma verifyHeader_violation:
  assumes "Height header \<noteq> 0" and "fst (GetHeaderByHash env s (PrevBlockHash header)) = Some prev"
    and "\<not> chained prev header"
  shows "\<exists>e. verifyHeader env s header info = (info, Some e)"
proof (cases "verifyHeader env s header info")
  case (Pair info' err)
  show ?thesis
  proof (cases err)
    case None
    then show ?thesis using verifyHeader_ok [of env s header info info'] Pair assms by auto
  next
    case (Some e)
    then show ?thesis using verifyHeader_error [of env s header info info' e] Pair by simp
  qed
qed

lemma demo_lower: "ToLower ''solo'' \<noteq> ''vbft''"
  by (simp add: ToLower_def toLowerChar_def)

text \<open>
  Claim C9, as amended. A header of height other than 0 that \<open>AddHeader\<close> adds, or whose
  block \<open>SubmitBlock\<close> commits, has a previous header (the one \<open>GetHeaderByHash\<close> returns
  for its \<open>PrevBlockHash\<close>) with \<open>Height = prevHeader.Height + 1\<close> and a strictly later
  timestamp. \<open>AddHeader\<close> answers a header that violates either condition with an error
  and leaves the ledger as it was. \<open>SubmitBlock\<close> leaves the ledger as it was for such a
  header, and returns an error, unless the block is at or below the current height: then
  it returns nil without having looked at the header.
\<close>

theorem header_chain:
  "(AddHeader env s header = (s', None) \<and> Height header \<noteq> 0 \<longrightarrow>
      (\<exists>prev. fst (GetHeaderByHash env s (PrevBlockHash header)) = Some prev \<and> chained prev header)) \<and>
   (SubmitBlock env s block result = Ret (s', None) \<and> currBlockHeight s < Height (Header block) \<longrightarrow>
      (\<exists>prev. fst (GetHeaderByHash env s (PrevBlockHash (Header block))) = Some prev \<and>
              chained prev (Header block))) \<and>
   (Height header \<noteq> 0 \<and> fst (GetHeaderByHash env s (PrevBlockHash header)) = Some prev \<and>
    \<not> chained prev header \<longrightarrow> (\<exists>e. AddHeader env s header = (s, Some e))) \<and>
   (Height (Header block) \<noteq> 0 \<and>
    fst (GetHeaderByHash env s (PrevBlockHash (Header block))) = Some prev \<and>
    \<not> chained prev (Header block) \<longrightarrow>
      (if Height (Header block) \<le> currBlockHeight s
       then SubmitBlock env s block result = Ret (s, None)
       else (\<exists>e. SubmitBlock env s block result = Ret (s, Some e))))"
proof (intro conjI impI)
  assume a: "AddHeader env s header = (s', None) \<and> Height header \<noteq> 0"
  then obtain info' where "verifyHeader env s header (vbftPeerInfoheader s) = (info', None)"
    by (auto simp: AddHeader_def Let_def split: if_splits prod.splits option.splits)
  then show "\<exists>prev. fst (GetHeaderByHash env s (PrevBlockHash header)) = Some prev \<and> chained prev header"
    using a verifyHeader_ok by blast
next
  assume a: "SubmitBlock env s block result = Ret (s', None) \<and> currBlockHeight s < Height (Header block)"
  then have nz: "Height (Header block) \<noteq> 0" by (metis word_not_simps(1))
  from a obtain info' where "verifyHeader env s (Header block) (vbftPeerInfoblock s) = (info', None)"
    by (auto simp: SubmitBlock_def GetCurrentBlockHeight_def Let_def not_le
        split: if_splits prod.splits option.splits go.splits)
  then show "\<exists>prev. fst (GetHeaderByHash env s (PrevBlockHash (Header block))) = Some prev \<and>
              chained prev (Header block)"
    using nz verifyHeader_ok by blast
next
  assume a: "Height header \<noteq> 0 \<and> fst (GetHeaderByHash env s (PrevBlockHash header)) = Some prev \<and>
    \<not> chained prev header"
  then obtain e where "verifyHeader env s header (vbftPeerInfoheader s) = (vbftPeerInfoheader s, Some e)"
    using verifyHeader_violation by blast
  then show "\<exists>e. AddHeader env s header = (s, Some e)"
    by (simp add: AddHeader_def Let_def)
next
  assume a: "Height (Header block) \<noteq> 0 \<and>
    fst (GetHeaderByHash env s (PrevBlockHash (Header block))) = Some prev \<and>
    \<not> chained prev (Header block)"
  then obtain e where v: "verifyHeader env s (Header block) (vbftPeerInfoblock s) = (vbftPeerInfoblock s, Some e)"
    using verifyHeader_violation by blast
  show "if Height (Header block) \<le> currBlockHeight s
       then SubmitBlock env s block result = Ret (s, None)
       else (\<exists>e. SubmitBlock env s block result = Ret (s, Some e))"
    using v by (simp add: SubmitBlock_def GetCurrentBlockHeight_def Let_def)
qed

theorem header_chain_witness:
  "(\<exists>prev. fst (GetHeaderByHash demo_env ledger_hdr (PrevBlockHash (demo_header 1))) = Some prev \<and>
           chained prev (demo_header 1)) \<and>
   (\<exists>e. AddHeader demo_env ledger_hdr late_header = (ledger_hdr, Some e)) \<and>
   SubmitBlock demo_env ledger_stale stale_block zero_result = Ret (ledger_stale, None)"
proof -
  obtain s1 where ok: "AddHeader demo_env ledger_hdr (demo_header 1) = (s1, None)"
    by (simp add: AddHeader_def GetCurrentHeaderHeight_def verifyHeader_def verifyHeader_solo_def
        GetHeaderByHash_def ledger_hdr_def demo_defs demo_lower go_div_def Let_def demo_hash_def)
  have nz: "Height (demo_header 1) \<noteq> 0" by (simp add: demo_header_def)
  have late: "Height late_header \<noteq> 0 \<and>
      fst (GetHeaderByHash demo_env ledger_hdr (PrevBlockHash late_header)) = Some (demo_header 0) \<and>
      \<not> chained (demo_header 0) late_header"
    by (simp add: late_header_def ledger_hdr_def demo_defs GetHeaderByHash_def chained_def)
  have stale: "Height (Header stale_block) \<noteq> 0 \<and>
      fst (GetHeaderByHash demo_env ledger_stale (PrevBlockHash (Header stale_block))) = Some (demo_header 2) \<and>
      \<not> chained (demo_header 2) (Header stale_block) \<and>
      Height (Header stale_block) \<le> currBlockHeight ledger_stale"
    by (simp add: stale_block_def ledger_stale_def ledger_at_5_def demo_defs GetHeaderByHash_def
        chained_def)
  show ?thesis
    using header_chain [of demo_env ledger_hdr "demo_header 1" s1 stale_block zero_result "demo_header 0"]
      header_chain [of demo_env ledger_hdr late_header s1 stale_block zero_result "demo_header 0"]
      header_chain [of demo_env ledger_stale late_header s1 stale_block zero_result "demo_header 2"]
      ok nz late stale
    by simp
qed

text \<open>
  The claim as first stated says that \<open>SubmitBlock\<close> rejects every violating header with an
  error. At height 5, the block of height 3 whose timestamp 50 is not later than its
  previous header's 102 is answered with nil.
\<close>

theorem header_chain_counterexample:
  "Height (Header stale_block) \<noteq> 0 \<and>
   fst (GetHeaderByHash demo_env ledger_stale (PrevBlockHash (Header stale_block))) = Some (demo_header 2) \<and>
   \<not> chained (demo_header 2) (Header stale_block) \<and>
   SubmitBlock demo_env ledger_stale stale_block zero_result = Ret (ledger_stale, None)"
  by (simp add: stale_block_def ledger_stale_def ledger_at_5_def demo_defs GetHeaderByHash_def
      chained_def SubmitBlock_def GetCurrentBlockHeight_def)

subsection \<open>\<open>ExecuteBlock\<close> at or below the current height\<close>

text \<open>
  Claim C5. For a block at or below the current height \<open>ExecuteBlock\<close> returns what the
  state store's \<open>GetStateMerkleRoot\<close> answers for that height, in a result that is
  otherwise the zero value (no notification, no write set), and returns the world as it
  was. The outcome is the same under every environment with the same state store and
  every iteration order: no handler runs. For a block that is neither at or below the
  current height nor at the next height it returns an error, with the world as it was.
\<close>

theorem ExecuteBlock_idempotent:
  "(Height (Header block) \<le> currBlockHeight s \<longrightarrow>
      ExecuteBlock env \<rho> s block =
        (stores s, Ret (zero_result\<lparr>MerkleRoot := fst (GetStateMerkleRoot env s (Height (Header block)))\<rparr>,
                        snd (GetStateMerkleRoot env s (Height (Header block))))) \<and>
      (\<forall>env' \<rho>'. ss env' = ss env \<longrightarrow> ExecuteBlock env' \<rho>' s block = ExecuteBlock env \<rho> s block)) \<and>
   (\<not> Height (Header block) \<le> currBlockHeight s \<and> Height (Header block) \<noteq> currBlockHeight s + 1 \<longrightarrow>
      (\<exists>e. ExecuteBlock env \<rho> s block = (stores s, Ret (zero_result, Some e))))"
  by (auto simp: ExecuteBlock_def GetCurrentBlockHeight_def GetStateMerkleRoot_def Let_def split: prod.splits)


theorem ExecuteBlock_idempotent_witness:
  "ExecuteBlock demo_env order_a ledger_rooted (block_at 3) =
     (stores ledger_rooted, Ret (zero_result\<lparr>MerkleRoot := 777\<rparr>, None)) \<and>
   (\<exists>e. ExecuteBlock demo_env order_a ledger_rooted (block_at 9) =
     (stores ledger_rooted, Ret (zero_result, Some e)))"
proof -
  have low: "Height (Header (block_at 3)) \<le> currBlockHeight ledger_rooted"
    by (simp add: block_at_def demo_header_def ledger_rooted_def ledger_at_5_def new_ledger_def)
  have gap: "\<not> Height (Header (block_at 9)) \<le> currBlockHeight ledger_rooted \<and>
             Height (Header (block_at 9)) \<noteq> currBlockHeight ledger_rooted + 1"
    by (simp add: block_at_def demo_header_def ledger_rooted_def ledger_at_5_def new_ledger_def)
  have root: "GetStateMerkleRoot demo_env ledger_rooted (Height (Header (block_at 3))) = (777, None)"
    by (simp add: GetStateMerkleRoot_def block_at_def ledger_rooted_def ledger_at_5_def demo_defs)
  show ?thesis
    using ExecuteBlock_idempotent [of "block_at 3" ledger_rooted demo_env order_a]
      ExecuteBlock_idempotent [of "block_at 9" ledger_rooted demo_env order_a] low gap root
    by simp
qed

subsection \<open>The order of the commits\<close>

lemma same_pointer_refl: "same_pointer s s"
  by (simp add: same_pointer_def)

lemma same_pointer_trans: "same_pointer s2 s1 \<Longrightarrow> same_pointer s1 s \<Longrightarrow> same_pointer s2 s"
  by (simp add: same_pointer_def)

lemma same_pointer_stores: "same_pointer (s\<lparr>stores := w\<rparr>) s"
  by (simp add: same_pointer_def)

lemma on_store_pointer: "on_store s op = (s1, r) \<Longrightarrow> same_pointer s1 s"
  by (auto simp: on_store_def same_pointer_def split: prod.splits)

lemma on_store_go_pointer: "on_store_go s op = Ret (s1, r) \<Longrightarrow> same_pointer s1 s"
  by (auto simp: on_store_go_def same_pointer_def split: prod.splits go.splits)

lemma wrap_pointer: "wrap msg x = (s1, r) \<Longrightarrow> same_pointer (fst x) s \<Longrightarrow> same_pointer s1 s"
  by (auto simp: wrap_def)

lemma for_each_pointer:
  assumes "\<And>x s s1 r. body x s = (s1, r) \<Longrightarrow> same_pointer s1 s"
  shows "for_each body xs s = (s1, r) \<Longrightarrow> same_pointer s1 s"
proof (induction xs arbitrary: s)
  case Nil
  then show ?case by (simp add: same_pointer_def)
next
  case (Cons x xs)
  show ?case
  proof (cases "body x s")
    case (Pair s2 r2)
    then have p: "same_pointer s2 s" using assms by blast
    show ?thesis
    proof (cases r2)
      case None
      then have "for_each body xs s2 = (s1, r)" using Cons.prems Pair by simp
      then show ?thesis using Cons.IH p same_pointer_trans by blast
    next
      case (Some e)
      then show ?thesis using Cons.prems Pair p by simp
    qed
  qed
qed

lemma saveBlockToBlockStore_pointer:
  "saveBlockToBlockStore env block s = (s1, r) \<Longrightarrow> same_pointer s1 s"
  by (auto simp: saveBlockToBlockStore_def saveHeaderIndexList_def setHeaderIndex_def wrap_def
      on_store_def same_pointer_def Let_def split: prod.splits option.splits if_splits)

lemma saveEventNotify_pointer:
  "saveEventNotify env n s = (s1, r) \<Longrightarrow> same_pointer s1 s"
  by (auto simp: saveEventNotify_def on_store_def same_pointer_def split: prod.splits option.splits)

lemma saveBlockToStateStore_pointer:
  "saveBlockToStateStore env block result s = Ret (s1, r) \<Longrightarrow> same_pointer s1 s"
  apply (auto simp: saveBlockToStateStore_def and_then_def wrap_def on_store_def Let_def
      split: prod.splits option.splits if_splits go.splits)
       apply (auto simp: same_pointer_def dest!: for_each_pointer [OF saveEventNotify_pointer, rotated])
  done

lemma saveBlockToEventStore_pointer:
  "saveBlockToEventStore env block s = (s1, r) \<Longrightarrow> same_pointer s1 s"
  by (auto simp: saveBlockToEventStore_def wrap_def on_store_def same_pointer_def Let_def
      split: prod.splits option.splits if_splits)

lemma saveCrossShardDataToStore_pointer:
  "saveCrossShardDataToStore env block result s = Ret (s1, r) \<Longrightarrow> same_pointer s1 s"
  apply (auto simp: saveCrossShardDataToStore_def and_then_def saveContractMetaData_def
      saveCrossShardDeployContractEventData_def on_store_go_def
      split: prod.splits option.splits if_splits go.splits)
  apply (auto simp: same_pointer_def dest!: for_each_pointer [OF on_store_pointer, rotated])
  done


lemma save_batches_pointer:
  assumes "save_batches env block result s = Ret (s1, r)"
  shows "same_pointer s1 s"
proof -
  let ?s0 = "s\<lparr>stores := esNewBatch (es env) (ssNewBatch (ss env) (bsNewBatch (bs env) (stores s)))\<rparr>"
  have p0: "same_pointer ?s0 s" by (simp add: same_pointer_def)
  obtain a ra where a: "saveBlockToBlockStore env block ?s0 = (a, ra)" by fastforce
  then have pa: "same_pointer a s" using saveBlockToBlockStore_pointer p0 same_pointer_trans by blast
  show ?thesis
  proof (cases ra)
    case (Some e)
    then show ?thesis using assms a pa by (simp add: save_batches_def and_then_def wrap_def)
  next
    case None
    note ra = None
    show ?thesis
    proof (cases "saveBlockToStateStore env block result a")
      case Panic
      then show ?thesis using assms a ra by (simp add: save_batches_def and_then_def wrap_def wrap_go_def)
    next
      case (Ret x)
      obtain b rb where b: "saveBlockToStateStore env block result a = Ret (b, rb)"
        using Ret by (cases x) simp
      then have pb: "same_pointer b s" using saveBlockToStateStore_pointer pa same_pointer_trans by blast
      show ?thesis
      proof (cases rb)
        case (Some e)
        then show ?thesis using assms a ra b pb
          by (simp add: save_batches_def and_then_def wrap_def wrap_go_def)
      next
        case None
        note rb = None
        obtain c rc where c: "saveBlockToEventStore env block b = (c, rc)" by fastforce
        then have pc: "same_pointer c s" using saveBlockToEventStore_pointer pb same_pointer_trans by blast
        show ?thesis
        proof (cases rc)
          case (Some e)
          then show ?thesis using assms a ra b rb c pc
            by (simp add: save_batches_def and_then_def wrap_def wrap_go_def)
        next
          case None
          then have "wrap_go ''save to save cross shard data height error''
                       (saveCrossShardDataToStore env block result c) = Ret (s1, r)"
            using assms a ra b rb c by (simp add: save_batches_def and_then_def wrap_def wrap_go_def)
          then obtain r' where "saveCrossShardDataToStore env block result c = Ret (s1, r')"
            by (auto simp: wrap_go_def wrap_def split: go.splits)
          then show ?thesis using saveCrossShardDataToStore_pointer pc same_pointer_trans by blast
        qed
      qed
    qed
  qed
qed

lemma commit_stores_cases:
  "commit_stores env block result s1 =
     (case after_block_commit env s1 of
        (Some e, w1) \<Rightarrow> (s1\<lparr>stores := w1\<rparr>, Some (Wrapf ''blockStore.CommitTo error'' e))
      | (None, w1) \<Rightarrow>
         (case after_event_commit env s1 of
            (Some e, w2) \<Rightarrow> (s1\<lparr>stores := w2\<rparr>, Some (Wrapf ''eventStore.CommitTo error'' e))
          | (None, w2) \<Rightarrow>
             (case after_state_commit env s1 of
                (Some e, w3) \<Rightarrow> (s1\<lparr>stores := w3\<rparr>, Some (Wrapf ''stateStore.CommitTo error'' e))
              | (None, w3) \<Rightarrow>
                  ((setCurrentBlock (Height (Header block)) (BlockHash env block) s1)
                     \<lparr>stores := publish_complete env block result w3\<rparr>, None))))"
  by (simp add: commit_stores_def after_block_commit_def after_event_commit_def
      after_state_commit_def wrap_def on_store_def setCurrentBlock_def Let_def
      split: prod.splits option.splits)

lemma commit_stores_error_pointer:
  "commit_stores env block result s1 = (s2, Some e) \<Longrightarrow> same_pointer s2 s1"
  by (auto simp: commit_stores_cases same_pointer_def split: prod.splits option.splits)

lemma submitBlock_reaches_commit:
  assumes "submitBlock env s block result = Ret (s', r)"
  shows "(s' = s \<and> r = Some (Errorf ''wrong block root at height'')) \<or>
         (\<exists>e. r = Some e \<and> save_batches env block result s = Ret (s', Some e)) \<or>
         (\<exists>s1. save_batches env block result s = Ret (s1, None) \<and>
               commit_stores env block result s1 = (s', r))"
  using assms
  by (auto simp: submitBlock_def and_then_def split: go.splits if_splits option.splits prod.splits)

text \<open>
  Claim C4. Whenever \<open>submitBlock\<close> returns an error, the pointer to the current block is
  what it was. When it returns nil, the batches were filled without error, the block
  store, the event store and the state store were committed in this order and each commit
  returned nil, and the new ledger is the one at which the commit phase started with the
  pointer set to the block and the completion message published on the world that the
  state store's commit left: the pointer is set after the last commit. When the event
  store's commit fails, \<open>submitBlock\<close> stops with the world that this commit left, and the
  state store's commit is not run; when the state store's commit fails, the pointer is
  not set.
\<close>

theorem durable_commit_order:
  "(submitBlock env s block result = Ret (s', Some e) \<longrightarrow> same_pointer s' s) \<and>
   (submitBlock env s block result = Ret (s', None) \<longrightarrow>
      (\<exists>s1. save_batches env block result s = Ret (s1, None) \<and>
            fst (after_block_commit env s1) = None \<and>
            fst (after_event_commit env s1) = None \<and>
            fst (after_state_commit env s1) = None \<and>
            s' = (setCurrentBlock (Height (Header block)) (BlockHash env block) s1)
                   \<lparr>stores := publish_complete env block result (snd (after_state_commit env s1))\<rparr>)) \<and>
   (fst (after_block_commit env s1) = None \<and> after_event_commit env s1 = (Some e, w2) \<longrightarrow>
      commit_stores env block result s1 =
        (s1\<lparr>stores := w2\<rparr>, Some (Wrapf ''eventStore.CommitTo error'' e))) \<and>
   (fst (after_block_commit env s1) = None \<and> fst (after_event_commit env s1) = None \<and>
    after_state_commit env s1 = (Some e, w3) \<longrightarrow>
      commit_stores env block result s1 =
        (s1\<lparr>stores := w3\<rparr>, Some (Wrapf ''stateStore.CommitTo error'' e)))"
proof (intro conjI impI)
  assume a: "submitBlock env s block result = Ret (s', Some e)"
  show "same_pointer s' s"
    using submitBlock_reaches_commit [OF a]
  proof (elim disjE exE conjE)
    assume "s' = s"
    then show ?thesis by (simp add: same_pointer_refl)
  next
    fix e' assume "save_batches env block result s = Ret (s', Some e')"
    then show ?thesis by (rule save_batches_pointer)
  next
    fix s1 assume "save_batches env block result s = Ret (s1, None)"
      and "commit_stores env block result s1 = (s', Some e)"
    then show ?thesis
      using save_batches_pointer commit_stores_error_pointer same_pointer_trans by blast
  qed
next
  assume a: "submitBlock env s block result = Ret (s', None)"
  then obtain s1 where s1: "save_batches env block result s = Ret (s1, None)"
    and c: "commit_stores env block result s1 = (s', None)"
    using submitBlock_reaches_commit [OF a] by auto
  from c have "fst (after_block_commit env s1) = None \<and>
            fst (after_event_commit env s1) = None \<and>
            fst (after_state_commit env s1) = None \<and>
            s' = (setCurrentBlock (Height (Header block)) (BlockHash env block) s1)
                   \<lparr>stores := publish_complete env block result (snd (after_state_commit env s1))\<rparr>"
    by (auto simp: commit_stores_cases split: prod.splits option.splits)
  then show "\<exists>s1. save_batches env block result s = Ret (s1, None) \<and>
            fst (after_block_commit env s1) = None \<and>
            fst (after_event_commit env s1) = None \<and>
            fst (after_state_commit env s1) = None \<and>
            s' = (setCurrentBlock (Height (Header block)) (BlockHash env block) s1)
                   \<lparr>stores := publish_complete env block result (snd (after_state_commit env s1))\<rparr>"
    using s1 by blast
next
  assume "fst (after_block_commit env s1) = None \<and> after_event_commit env s1 = (Some e, w2)"
  then show "commit_stores env block result s1 =
        (s1\<lparr>stores := w2\<rparr>, Some (Wrapf ''eventStore.CommitTo error'' e))"
    by (auto simp: commit_stores_cases split: prod.splits option.splits)
next
  assume "fst (after_block_commit env s1) = None \<and> fst (after_event_commit env s1) = None \<and>
    after_state_commit env s1 = (Some e, w3)"
  then show "commit_stores env block result s1 =
        (s1\<lparr>stores := w3\<rparr>, Some (Wrapf ''stateStore.CommitTo error'' e))"
    by (auto simp: commit_stores_cases split: prod.splits option.splits)
qed


theorem durable_commit_order_witness:
  "(\<exists>s'. submitBlock demo_env new_ledger genesis_block empty_result = Ret (s', None) \<and>
         currBlockHash s' = 1000 \<and>
         journal (stores s') =
           [''blockStore.CommitTo'', ''eventStore.CommitTo'', ''stateStore.CommitTo'', ''save block complete'']) \<and>
   (\<exists>s' e. submitBlock demo_env broken_ledger genesis_block empty_result = Ret (s', Some e) \<and>
         same_pointer s' broken_ledger \<and>
         durable (eventStore (stores s')) \<noteq> [] \<and> durable (stateStore (stores s')) = [] \<and>
         journal (stores s') = [''blockStore.CommitTo'', ''eventStore.CommitTo'', ''stateStore.CommitTo''])"
proof -
  have good: "\<exists>s'. submitBlock demo_env new_ledger genesis_block empty_result = Ret (s', None) \<and>
         currBlockHash s' = 1000 \<and>
         journal (stores s') =
           [''blockStore.CommitTo'', ''eventStore.CommitTo'', ''stateStore.CommitTo'', ''save block complete'']"
    by (simp add: submitBlock_def GetBlockRootWithNewTxRoots_def demo_defs commit_defs genesis_block_def
        empty_result_def zero_result_def List.map_filter_def)
  obtain s' e where bad: "submitBlock demo_env broken_ledger genesis_block empty_result = Ret (s', Some e)"
    and rest: "durable (eventStore (stores s')) \<noteq> [] \<and> durable (stateStore (stores s')) = [] \<and>
         journal (stores s') = [''blockStore.CommitTo'', ''eventStore.CommitTo'', ''stateStore.CommitTo'']"
    by (simp add: submitBlock_def GetBlockRootWithNewTxRoots_def demo_defs commit_defs genesis_block_def
        empty_result_def zero_result_def List.map_filter_def broken_ledger_def)
  have "same_pointer s' broken_ledger"
    using durable_commit_order [of demo_env broken_ledger genesis_block empty_result s' e] bad by simp
  then show ?thesis using good bad rest by blast
qed

subsection \<open>The state root by height\<close>

lemmas exec_defs = executeBlock_def run_block_def exec_block_txs_def sorted_shard_ids_def go_range_def
  ToUint64_def exec_tx_def HandleTransaction_def initial_notify_def commit_xshard_def finish_result_def
  calculateTotalStateHash_def accumulateHash_def shard_txs_of_def zero_result_def UINT256_EMPTY_def
  ST_CONTRACT_def ST_STORAGE_def CONTRACT_STATE_FAIL_def

lemmas demo_exec_defs = demo_invoke_def traced_def demo_write_def demo_hash_def invoke_tx_def
  shard_call_tx_def order_a_def order_b_def

lemma fold_accumulate: "fold (\<lambda>(key, val) h. h @ key @ val) xs h0 = h0 @ concat (map (\<lambda>(key, val). key @ val) xs)"
  by (induction xs arbitrary: h0) (auto split: prod.splits)

lemma calculateTotalStateHash_ok:
  "calculateTotalStateHash env ov = (res, None) \<Longrightarrow>
     res = sha256 (ex env) (namespace_bytes env ov ST_CONTRACT @ namespace_bytes env ov ST_STORAGE)"
  by (auto simp: calculateTotalStateHash_def accumulateHash_def namespace_bytes_def fold_accumulate
      split: prod.splits option.splits)

lemma finish_result_phases:
  assumes "finish_result env s block ov shardNotify notifies = (result, None)"
  shows "WriteSet result = Some (GetWriteSet (ex env) ov) \<and>
     (Height (Header block) < stateHashCheckHeight s \<longrightarrow>
        MerkleRoot result = UINT256_EMPTY \<and> Hash result = ChangeHash (ex env) ov) \<and>
     (Height (Header block) = stateHashCheckHeight s \<longrightarrow>
        MerkleRoot result =
          sha256 (ex env) (namespace_bytes env ov ST_CONTRACT @ namespace_bytes env ov ST_STORAGE) \<and>
        Hash result = MerkleRoot result) \<and>
     (stateHashCheckHeight s < Height (Header block) \<longrightarrow>
        Hash result = ChangeHash (ex env) ov \<and>
        MerkleRoot result = ssGetStateMerkleRootWithNewHash (ss env) (stores s) (ChangeHash (ex env) ov))"
  using assms
  by (auto simp: finish_result_def Let_def dest: calculateTotalStateHash_ok
      split: if_splits prod.splits option.splits)

lemma run_block_ok:
  assumes "run_block env \<rho> s block ov0 = Ret (result, None)"
  shows "\<exists>st0 acc sn ns. overlay st0 = NewXShardDB (ex env) (NewCacheDB (ex env) ov0) \<and>
     exec_block_txs env \<rho> s (GAS_TABLE (ex env) (stores s)) block (st0, [], []) = Ret (acc, None) \<and>
     finish_result env s block (commit_xshard env \<rho> block acc) sn ns = (result, None)"
proof -
  obtain addrList where a: "ssGetCurrentLockedAddress (ss env) (stores s) = Inr addrList"
    using assms by (auto simp: run_block_def Let_def split: sum.splits)
  obtain keyList where k: "ssGetCurrentLockedKeys (ss env) (stores s) = Inr keyList"
    using assms a by (auto simp: run_block_def Let_def split: sum.splits)
  let ?st0 = "\<lparr>overlay = NewXShardDB (ex env) (NewCacheDB (ex env) ov0),
               lockedAddress = set addrList, lockedKeys = set keyList\<rparr>"
  obtain st1 sn ns where e: "exec_block_txs env \<rho> s (GAS_TABLE (ex env) (stores s)) block (?st0, [], []) = Ret ((st1, sn, ns), None)"
    and f: "finish_result env s block (commit_xshard env \<rho> block (st1, sn, ns)) sn ns = (result, None)"
    using assms a k
    by (auto simp: run_block_def Let_def split: go.splits prod.splits option.splits)
  show ?thesis
    using e f by (intro exI [of _ ?st0] exI [of _ "(st1, sn, ns)"] exI [of _ sn] exI [of _ ns]) simp
qed

lemma executeBlock_ok:
  assumes "executeBlock env \<rho> s block = (w1, Ret (result, None))"
  shows "\<exists>ov sn ns. final_overlay env \<rho> s block w1 ov \<and>
           finish_result env (s\<lparr>stores := w1\<rparr>) block ov sn ns = (result, None)"
proof -
  have "run_block env \<rho> (s\<lparr>stores := w1\<rparr>) block (ssNewOverlayDB (ss env) (stores s)) = Ret (result, None)"
    using assms
    by (auto simp: executeBlock_def Let_def zero_result_def split: if_splits prod.splits option.splits)
  from run_block_ok [OF this] obtain st0 acc sn ns
    where "overlay st0 = NewXShardDB (ex env) (NewCacheDB (ex env) (ssNewOverlayDB (ss env) (stores s)))"
      and "exec_block_txs env \<rho> (s\<lparr>stores := w1\<rparr>) (GAS_TABLE (ex env) w1) block (st0, [], []) = Ret (acc, None)"
      and "finish_result env (s\<lparr>stores := w1\<rparr>) block (commit_xshard env \<rho> block acc) sn ns = (result, None)"
    by auto
  then show ?thesis
    unfolding final_overlay_def by blast
qed

text \<open>
  Claim C8. When \<open>executeBlock\<close> returns a result and no error, the write set is the write
  set of the final overlay, and
  \<^item> below \<open>stateHashCheckHeight\<close> the state root is the empty value and the hash is the
    overlay's change hash;
  \<^item> at \<open>stateHashCheckHeight\<close> the state root is the SHA-256 of the bytes of all entries
    under the contract prefix followed by those under the storage prefix, and the hash is
    set to the same value;
  \<^item> above it the hash is the overlay's change hash and the state root is what the state
    store's \<open>GetStateMerkleRootWithNewHash\<close> makes of that hash.
\<close>

theorem three_phase_state_root:
  "executeBlock env \<rho> s block = (w1, Ret (result, None)) \<longrightarrow>
     (\<exists>ov. final_overlay env \<rho> s block w1 ov \<and>
        WriteSet result = Some (GetWriteSet (ex env) ov) \<and>
        (Height (Header block) < stateHashCheckHeight s \<longrightarrow>
           MerkleRoot result = UINT256_EMPTY \<and> Hash result = ChangeHash (ex env) ov) \<and>
        (Height (Header block) = stateHashCheckHeight s \<longrightarrow>
           MerkleRoot result =
             sha256 (ex env) (namespace_bytes env ov ST_CONTRACT @ namespace_bytes env ov ST_STORAGE) \<and>
           Hash result = MerkleRoot result) \<and>
        (stateHashCheckHeight s < Height (Header block) \<longrightarrow>
           Hash result = ChangeHash (ex env) ov \<and>
           MerkleRoot result = ssGetStateMerkleRootWithNewHash (ss env) w1 (ChangeHash (ex env) ov)))"
proof
  assume "executeBlock env \<rho> s block = (w1, Ret (result, None))"
  then obtain ov sn ns where fo: "final_overlay env \<rho> s block w1 ov"
    and fr: "finish_result env (s\<lparr>stores := w1\<rparr>) block ov sn ns = (result, None)"
    using executeBlock_ok [of env \<rho> s block w1 result] by blast
  show "\<exists>ov. final_overlay env \<rho> s block w1 ov \<and>
        WriteSet result = Some (GetWriteSet (ex env) ov) \<and>
        (Height (Header block) < stateHashCheckHeight s \<longrightarrow>
           MerkleRoot result = UINT256_EMPTY \<and> Hash result = ChangeHash (ex env) ov) \<and>
        (Height (Header block) = stateHashCheckHeight s \<longrightarrow>
           MerkleRoot result =
             sha256 (ex env) (namespace_bytes env ov ST_CONTRACT @ namespace_bytes env ov ST_STORAGE) \<and>
           Hash result = MerkleRoot result) \<and>
        (stateHashCheckHeight s < Height (Header block) \<longrightarrow>
           Hash result = ChangeHash (ex env) ov \<and>
           MerkleRoot result = ssGetStateMerkleRootWithNewHash (ss env) w1 (ChangeHash (ex env) ov))"
    using finish_result_phases [OF fr] fo by (intro exI [of _ ov]) simp
qed


theorem three_phase_state_root_witness:
  "(\<exists>w r. executeBlock demo_env order_a new_ledger (tx_block 1) = (w, Ret (r, None)) \<and>
          MerkleRoot r = 0 \<and> Hash r = demo_hash [4, 9, 1, 5, 3, 1, 56, 3, 57]) \<and>
   (\<exists>w r. executeBlock demo_env order_a new_ledger (tx_block 2) = (w, Ret (r, None)) \<and>
          MerkleRoot r = demo_hash [4, 9, 1, 5, 3, 1] \<and> Hash r = MerkleRoot r) \<and>
   (\<exists>w r. executeBlock demo_env order_a new_ledger (tx_block 3) = (w, Ret (r, None)) \<and>
          Hash r = demo_hash [4, 9, 1, 5, 3, 1, 56, 3, 57] \<and> MerkleRoot r = 1000003 + Hash r)"
proof -
  obtain w1 r1 where e1: "executeBlock demo_env order_a new_ledger (tx_block 1) = (w1, Ret (r1, None))"
    and h1: "Hash r1 = demo_hash [4, 9, 1, 5, 3, 1, 56, 3, 57]"
    by (simp add: exec_defs demo_defs demo_exec_defs tx_block_def deploy_tx_def)
  obtain w2 r2 where e2: "executeBlock demo_env order_a new_ledger (tx_block 2) = (w2, Ret (r2, None))"
    and m2: "MerkleRoot r2 = demo_hash [4, 9, 1, 5, 3, 1]"
    by (simp add: exec_defs demo_defs demo_exec_defs tx_block_def deploy_tx_def)
  obtain w3 r3 where e3: "executeBlock demo_env order_a new_ledger (tx_block 3) = (w3, Ret (r3, None))"
    and h3: "Hash r3 = demo_hash [4, 9, 1, 5, 3, 1, 56, 3, 57]"
    and m3: "MerkleRoot r3 = 1000003 + Hash r3"
    by (simp add: exec_defs demo_defs demo_exec_defs tx_block_def deploy_tx_def)
  have below: "Height (Header (tx_block 1)) < stateHashCheckHeight new_ledger"
    and at: "Height (Header (tx_block 2)) = stateHashCheckHeight new_ledger"
    by (simp_all add: tx_block_def demo_defs)
  have "MerkleRoot r1 = 0"
    using three_phase_state_root [of demo_env order_a new_ledger "tx_block 1" w1 r1] e1 below
    by (auto simp: UINT256_EMPTY_def)
  moreover have "Hash r2 = MerkleRoot r2"
    using three_phase_state_root [of demo_env order_a new_ledger "tx_block 2" w2 r2] e2 at
    by auto
  ultimately show ?thesis using e1 h1 e2 m2 e3 h3 m3 by blast
qed

subsection \<open>The order of execution inside a block\<close>

lemma exec_tx_spec:
  "exec_tx env store gasTable header inbound tx acc =
     spec_handle env store gasTable header inbound tx (reset_scope env acc)"
  by (cases acc) (auto simp: exec_tx_def spec_handle_def reset_scope_def Let_def)

lemma exec_txs_spec:
  "exec_txs env store gasTable header inbound txs acc =
     spec_execute env store gasTable header (map (Pair inbound) txs) acc"
  by (induction txs arbitrary: acc)
     (simp_all add: exec_tx_spec split: go.splits prod.splits option.splits)

lemma spec_execute_append:
  "spec_execute env store gasTable header (xs @ ys) acc =
     (case spec_execute env store gasTable header xs acc of
        Ret (acc1, None) \<Rightarrow> spec_execute env store gasTable header ys acc1
      | stopped \<Rightarrow> stopped)"
proof (induction xs arbitrary: acc)
  case Nil
  then show ?case by simp
next
  case (Cons x xs)
  show ?case
    by (simp add: Cons.IH split: go.splits prod.splits option.splits)
qed

lemma exec_shard_groups_spec:
  "exec_shard_groups env store gasTable block ids acc =
     spec_execute env store gasTable (Header block)
       (map (Pair True) (concat (map (shard_txs_of block) ids))) acc"
proof (induction ids arbitrary: acc)
  case Nil
  then show ?case by simp
next
  case (Cons sid ids)
  show ?case
    by (simp add: Cons.IH exec_txs_spec spec_execute_append split: go.splits prod.splits option.splits)
qed

lemma sorted_shard_ids_eq:
  "sorted_shard_ids \<rho> block = sorted_list_of_set (fst ` set (ShardTxs block))"
proof -
  let ?keys = "sorted_list_of_set (fst ` set (ShardTxs block))"
  have "sort (sort_key (shardOrder \<rho>) ?keys) = ?keys"
    by (rule properties_for_sort) simp_all
  moreover have "ToUint64 = (\<lambda>x. x)"
    by (simp add: fun_eq_iff ToUint64_def)
  ultimately show ?thesis
    by (simp add: sorted_shard_ids_def go_range_def)
qed

text \<open>
  Claim C6. The two loop nests of \<open>executeBlock\<close> do what the specification says: they
  run the inbound groups in ascending order of \<open>ToUint64\<close> of their shard id, then the
  block's own transactions in block order, and reset the cache scope before each
  transaction. The ids that the loop visits are strictly ascending, and they are exactly
  the keys of \<open>block.ShardTxs\<close>, whatever order the \<open>range\<close> over the map produced.
\<close>

theorem execution_order:
  "exec_block_txs env \<rho> store gasTable block acc =
     spec_execute env store gasTable (Header block) (spec_execution_order block) acc \<and>
   sorted_wrt (<) (map ToUint64 (sorted_shard_ids \<rho> block)) \<and>
   set (sorted_shard_ids \<rho> block) = fst ` set (ShardTxs block)"
proof (intro conjI)
  show "exec_block_txs env \<rho> store gasTable block acc =
     spec_execute env store gasTable (Header block) (spec_execution_order block) acc"
    by (simp add: exec_block_txs_def spec_execution_order_def sorted_shard_ids_eq
        exec_shard_groups_spec exec_txs_spec spec_execute_append
        split: go.splits prod.splits option.splits)
  have "map ToUint64 (sorted_shard_ids \<rho> block) = sorted_shard_ids \<rho> block"
    by (rule map_idI) (simp add: ToUint64_def)
  then show "sorted_wrt (<) (map ToUint64 (sorted_shard_ids \<rho> block))"
    by (simp add: sorted_shard_ids_eq)
  show "set (sorted_shard_ids \<rho> block) = fst ` set (ShardTxs block)"
    by (simp add: sorted_shard_ids_eq)
qed


theorem execution_order_witness:
  "spec_execution_order block_one =
     [(True, shard_call_tx [20]), (True, shard_call_tx [21]), (True, shard_call_tx [50]),
      (False, invoke_tx [3]), (False, invoke_tx [2])] \<and>
   (\<exists>st ns. spec_execute demo_env new_ledger Map.empty (Header block_one)
               (spec_execution_order block_one) (demo_st0, [], []) =
             Ret ((st, [[20], [21], [50]], ns), None) \<and>
           trace (overlay st) =
             [''reset'', ''shardcall'', ''commit'', ''reset'', ''shardcall'', ''commit'',
              ''reset'', ''shardcall'', ''commit'', ''reset'', ''invoke'', ''commit'',
              ''reset'', ''invoke'', ''commit''])"
proof -
  have order: "spec_execution_order block_one =
     [(True, shard_call_tx [20]), (True, shard_call_tx [21]), (True, shard_call_tx [50]),
      (False, invoke_tx [3]), (False, invoke_tx [2])]"
    by (simp add: spec_execution_order_def block_one_def shard_txs_of_def)
  have "\<exists>st ns. exec_block_txs demo_env order_b new_ledger Map.empty block_one (demo_st0, [], []) =
             Ret ((st, [[20], [21], [50]], ns), None) \<and>
           trace (overlay st) =
             [''reset'', ''shardcall'', ''commit'', ''reset'', ''shardcall'', ''commit'',
              ''reset'', ''shardcall'', ''commit'', ''reset'', ''invoke'', ''commit'',
              ''reset'', ''invoke'', ''commit'']"
    by (simp add: exec_block_txs_def sorted_shard_ids_def go_range_def ToUint64_def exec_tx_def
        HandleTransaction_def initial_notify_def shard_txs_of_def block_one_def demo_st0_def
        demo_env_def demo_ex_def demo_invoke_def traced_def demo_write_def invoke_tx_def
        shard_call_tx_def order_b_def)
  then show ?thesis
    using execution_order [of demo_env order_b new_ledger Map.empty block_one "(demo_st0, [], [])"] order
    by simp
qed

subsection \<open>Determinism of \<open>executeBlock\<close>\<close>











subsection \<open>Errors of \<open>HandleTransaction\<close>\<close>

text \<open>
  A call of \<open>HandleTransaction\<close> that returns no error leaves the error flag clear when it
  found it clear, and so do the loops of \<open>executeBlock\<close> from one transaction to the next,
  when neither \<open>cache.Reset()\<close> nor \<open>cache.Commit()\<close> sets the flag.
\<close>

lemma HandleTransaction_keeps_clear:
  assumes "overlayError (ex env) (overlay st) = None"
    and "\<forall>ov. overlayError (ex env) ov = None \<longrightarrow> overlayError (ex env) (cacheCommit (ex env) ov) = None"
    and "HandleTransaction env store gasTable header tx st = Ret (st', notify, None)"
  shows "overlayError (ex env) (overlay st') = None"
  using assms
  by (cases "TxType tx")
     (auto simp: HandleTransaction_def Let_def split: prod.splits option.splits Payload.splits)

lemma exec_tx_keeps_clear:
  assumes "overlayError (ex env) (overlay (fst acc)) = None"
    and "\<forall>ov. overlayError (ex env) ov = None \<longrightarrow> overlayError (ex env) (cacheReset (ex env) ov) = None"
    and "\<forall>ov. overlayError (ex env) ov = None \<longrightarrow> overlayError (ex env) (cacheCommit (ex env) ov) = None"
    and "exec_tx env store gasTable header shardLoop tx acc = Ret (acc', None)"
  shows "overlayError (ex env) (overlay (fst acc')) = None"
proof -
  obtain st shardNotify notifies where acc: "acc = (st, shardNotify, notifies)" by (cases acc) auto
  let ?st1 = "st\<lparr>overlay := cacheReset (ex env) (overlay st)\<rparr>"
  have clear: "overlayError (ex env) (overlay ?st1) = None" using assms(1,2) acc by simp
  from assms(4) obtain st2 n where
    h: "HandleTransaction env store gasTable header tx ?st1 = Ret (st2, Some n, None)"
    and acc': "fst acc' = st2"
    by (auto simp: exec_tx_def acc Let_def split: if_splits go.splits prod.splits option.splits)
  show ?thesis
    using HandleTransaction_keeps_clear [OF clear assms(3) h] acc' by simp
qed

lemma exec_txs_keeps_clear:
  assumes "\<forall>ov. overlayError (ex env) ov = None \<longrightarrow> overlayError (ex env) (cacheReset (ex env) ov) = None"
    and "\<forall>ov. overlayError (ex env) ov = None \<longrightarrow> overlayError (ex env) (cacheCommit (ex env) ov) = None"
  shows "overlayError (ex env) (overlay (fst acc)) = None \<Longrightarrow>
         exec_txs env store gasTable header shardLoop txs acc = Ret (acc', None) \<Longrightarrow>
         overlayError (ex env) (overlay (fst acc')) = None"
proof (induction txs arbitrary: acc)
  case Nil
  then show ?case by simp
next
  case (Cons tx txs)
  from Cons.prems(2) obtain acc1 where
    one: "exec_tx env store gasTable header shardLoop tx acc = Ret (acc1, None)"
    and rest: "exec_txs env store gasTable header shardLoop txs acc1 = Ret (acc', None)"
    by (auto split: go.splits prod.splits option.splits)
  have "overlayError (ex env) (overlay (fst acc1)) = None"
    using exec_tx_keeps_clear [OF Cons.prems(1) assms one] .
  then show ?case using Cons.IH rest by blast
qed

text \<open>
  Claim C7. The notification starts in the failed state. \<open>HandleTransaction\<close> is entered
  with the overlay's error flag clear: its one caller, \<open>executeBlock\<close>, stops at the first
  call that returns an error, and a call that returns no error leaves the flag clear
  (\<open>exec_txs_keeps_clear\<close>). Entered so, and with a \<open>cache.Commit()\<close> that does not set the
  flag, \<open>HandleTransaction\<close> returns an error exactly when the flag is set as it returns,
  and a notification exactly when it returns no error. When a handler runs (the
  transaction is a \<open>Deploy\<close>, \<open>MetaData\<close>, \<open>Invoke\<close> or \<open>ShardCall\<close>), the outcome is decided
  by the flag alone as the handler returns: with the flag clear \<open>HandleTransaction\<close>
  returns the notification as the handler left it and no error, whatever error the
  handler itself returned. Every error that \<open>HandleTransaction\<close> returns comes from a
  handler that left the flag set. For a transaction of any other type no handler runs and
  the failed-state notification is returned with no error.
\<close>

theorem error_scoping:
  "State (ContractEvent (initial_notify txHash)) = CONTRACT_STATE_FAIL \<and>
   (overlayError (ex env) (overlay st) = None \<and>
    (\<forall>ov. overlayError (ex env) ov = None \<longrightarrow> overlayError (ex env) (cacheCommit (ex env) ov) = None) \<and>
    HandleTransaction env store gasTable header tx st = Ret (st', notify, err) \<longrightarrow>
      (err \<noteq> None \<longleftrightarrow> overlayError (ex env) (overlay st') \<noteq> None) \<and>
      (err = None \<longleftrightarrow> notify \<noteq> None)) \<and>
   (handler_outcome env store gasTable header tx st = Some (herr, st1, n1) \<longrightarrow>
      HandleTransaction env store gasTable header tx st =
        (case overlayError (ex env) (overlay st1) of
           Some oerr \<Rightarrow> Ret (st1, None, Some (Wrapf (if TxType tx = MetaData then ''HandleChangeMetadataTransaction tx error''
                                                       else if TxType tx = Invoke then ''HandleInvokeTransaction tx error''
                                                       else ''HandleDeployTransaction tx error'') oerr))
         | None \<Rightarrow> Ret (after_commit env tx st1, Some n1, None))) \<and>
   (HandleTransaction env store gasTable header tx st = Ret (st', notify, Some e) \<longrightarrow>
      notify = None \<and>
      (\<exists>herr n1. handler_outcome env store gasTable header tx st = Some (herr, st', n1) \<and>
                 overlayError (ex env) (overlay st') \<noteq> None)) \<and>
   (TxType tx = OtherTxType t \<longrightarrow>
      HandleTransaction env store gasTable header tx st =
        Ret (st, Some (initial_notify (TxHashOf (ex env) tx)), None))"
proof (intro conjI impI)
  show "State (ContractEvent (initial_notify txHash)) = CONTRACT_STATE_FAIL"
    by (simp add: initial_notify_def)
next
  assume a: "overlayError (ex env) (overlay st) = None \<and>
    (\<forall>ov. overlayError (ex env) ov = None \<longrightarrow> overlayError (ex env) (cacheCommit (ex env) ov) = None) \<and>
    HandleTransaction env store gasTable header tx st = Ret (st', notify, err)"
  then show "(err \<noteq> None) = (overlayError (ex env) (overlay st') \<noteq> None)"
    by (cases "TxType tx")
       (auto simp: HandleTransaction_def Let_def split: prod.splits option.splits Payload.splits)
  from a show "(err = None) = (notify \<noteq> None)"
    by (cases "TxType tx")
       (auto simp: HandleTransaction_def Let_def split: prod.splits option.splits Payload.splits)
next
  assume "handler_outcome env store gasTable header tx st = Some (herr, st1, n1)"
  then show "HandleTransaction env store gasTable header tx st =
        (case overlayError (ex env) (overlay st1) of
           Some oerr \<Rightarrow> Ret (st1, None, Some (Wrapf (if TxType tx = MetaData then ''HandleChangeMetadataTransaction tx error''
                                                       else if TxType tx = Invoke then ''HandleInvokeTransaction tx error''
                                                       else ''HandleDeployTransaction tx error'') oerr))
         | None \<Rightarrow> Ret (after_commit env tx st1, Some n1, None))"
    by (cases "TxType tx")
       (auto simp: handler_outcome_def HandleTransaction_def after_commit_def Let_def
          split: prod.splits option.splits Payload.splits)
next
  assume a: "HandleTransaction env store gasTable header tx st = Ret (st', notify, Some e)"
  then show "notify = None"
    by (cases "TxType tx")
       (auto simp: HandleTransaction_def Let_def split: prod.splits option.splits Payload.splits)
  from a show "\<exists>herr n1. handler_outcome env store gasTable header tx st = Some (herr, st', n1) \<and>
                 overlayError (ex env) (overlay st') \<noteq> None"
    by (cases "TxType tx")
       (auto simp: handler_outcome_def HandleTransaction_def Let_def
          split: prod.splits option.splits Payload.splits)
next
  assume "TxType tx = OtherTxType t"
  then show "HandleTransaction env store gasTable header tx st =
        Ret (st, Some (initial_notify (TxHashOf (ex env) tx)), None)"
    by (simp add: HandleTransaction_def)
qed

theorem error_scoping_witness:
  "overlayError (ex demo_env) (overlay demo_st0) = None \<and>
   (\<exists>st' e. HandleTransaction demo_env new_ledger Map.empty (demo_header 1) (invoke_tx [255]) demo_st0 =
             Ret (st', None, Some e) \<and> overlayError (ex demo_env) (overlay st') \<noteq> None) \<and>
   (\<exists>st' n. HandleTransaction demo_env new_ledger Map.empty (demo_header 1) (invoke_tx [254]) demo_st0 =
             Ret (st', Some n, None) \<and> State (ContractEvent n) = CONTRACT_STATE_FAIL \<and>
             overlayError (ex demo_env) (overlay st') = None) \<and>
   (\<exists>n. HandleTransaction demo_env new_ledger Map.empty (demo_header 1) bookkeeper_tx demo_st0 =
             Ret (demo_st0, Some n, None) \<and> State (ContractEvent n) = CONTRACT_STATE_FAIL)"
proof -
  let ?io = "External ''store read failed''"
  let ?e = "Wrapf ''HandleInvokeTransaction tx error'' ?io"
  let ?st1 = "demo_st0\<lparr>overlay := (traced ''invoke'' (overlay demo_st0))\<lparr>dbErr := Some ?io\<rparr>\<rparr>"
  let ?st2 = "demo_st0\<lparr>overlay := traced ''commit'' (traced ''invoke'' (overlay demo_st0))\<rparr>"
  let ?n = "initial_notify (demo_hash [254])"
  let ?m = "initial_notify (demo_hash [7])"
  have clear: "overlayError (ex demo_env) (overlay demo_st0) = None"
    by (simp add: demo_env_def demo_ex_def demo_st0_def)
  have keeps: "\<forall>ov. overlayError (ex demo_env) ov = None \<longrightarrow>
      overlayError (ex demo_env) (cacheCommit (ex demo_env) ov) = None"
    by (simp add: demo_env_def demo_ex_def traced_def)
  have one: "HandleTransaction demo_env new_ledger Map.empty (demo_header 1) (invoke_tx [255]) demo_st0 =
      Ret (?st1, None, Some ?e)"
    by (simp add: HandleTransaction_def invoke_tx_def demo_env_def demo_ex_def demo_invoke_def traced_def)
  have two: "HandleTransaction demo_env new_ledger Map.empty (demo_header 1) (invoke_tx [254]) demo_st0 =
      Ret (?st2, Some ?n, None)"
    by (simp add: HandleTransaction_def invoke_tx_def demo_env_def demo_ex_def demo_invoke_def traced_def
        demo_st0_def)
  have three: "HandleTransaction demo_env new_ledger Map.empty (demo_header 1) bookkeeper_tx demo_st0 =
      Ret (demo_st0, Some ?m, None)"
    by (simp add: HandleTransaction_def bookkeeper_tx_def demo_env_def demo_ex_def)
  have "(Some ?e \<noteq> None) = (overlayError (ex demo_env) (overlay ?st1) \<noteq> None)"
    using error_scoping [where txHash = 0 and env = demo_env and st = demo_st0 and store = new_ledger
        and gasTable = Map.empty and header = "demo_header 1" and tx = "invoke_tx [255]"
        and st' = ?st1 and notify = None and err = "Some ?e" and herr = None and ?st1.0 = demo_st0
        and ?n1.0 = ?n and e = ?io and t = 0] clear keeps one
    by blast
  then have set: "overlayError (ex demo_env) (overlay ?st1) \<noteq> None" by simp
  have "((None :: error option) \<noteq> None) = (overlayError (ex demo_env) (overlay ?st2) \<noteq> None)"
    using error_scoping [where txHash = 0 and env = demo_env and st = demo_st0 and store = new_ledger
        and gasTable = Map.empty and header = "demo_header 1" and tx = "invoke_tx [254]"
        and st' = ?st2 and notify = "Some ?n" and err = None and herr = None and ?st1.0 = demo_st0
        and ?n1.0 = ?n and e = ?io and t = 0] clear keeps two
    by blast
  then have unset: "overlayError (ex demo_env) (overlay ?st2) = None" by simp
  have failed: "State (ContractEvent ?n) = CONTRACT_STATE_FAIL \<and> State (ContractEvent ?m) = CONTRACT_STATE_FAIL"
    by (simp add: initial_notify_def)
  show ?thesis
    using clear one two three set unset failed by simp
qed

subsection \<open>Recovery after a stop between two commits\<close>

text \<open>
  The loop of \<open>recoverStore\<close> runs one iteration for each height from the state store's
  current height up to, but not including, the block store's current height.
\<close>

lemma replayed_heights_step:
  assumes "i < blockHeight"
  shows "replayed_heights i blockHeight = i # replayed_heights (i + 1) blockHeight"
proof -
  have "i \<noteq> - 1" using assms by (metis word_order.extremum_strict)
  then have "1 + i \<noteq> 0" by (metis add.commute add_eq_0_iff)
  then have suc: "unat (i + 1) = Suc (unat i)" using unatSuc [of i] by (simp add: add.commute)
  have "unat i < unat blockHeight" using assms by (simp add: word_less_nat_alt)
  then have "[unat i ..< unat blockHeight] = unat i # [Suc (unat i) ..< unat blockHeight]"
    by (rule upt_conv_Cons)
  then show ?thesis by (simp add: replayed_heights_def suc)
qed

lemma replayed_heights_done:
  assumes "\<not> i < blockHeight"
  shows "replayed_heights i blockHeight = []"
  using assms by (simp add: replayed_heights_def word_less_nat_alt)

lemma recover_loop_replay:
  "recover_loop env \<rho> i blockHeight s = replay env \<rho> (replayed_heights i blockHeight) s"
proof (induction env \<rho> i blockHeight s rule: recover_loop.induct)
  case (1 env \<rho> i blockHeight s)
  show ?case
  proof (cases "i < blockHeight")
    case False
    then show ?thesis
      by (subst recover_loop.simps) (simp add: replayed_heights_done)
  next
    case True
    have step: "recover_loop env \<rho> i blockHeight s =
        (case recover_height env (\<rho> i) i s of
           Ret (s1, None) \<Rightarrow> recover_loop env \<rho> (i + 1) blockHeight s1
         | stopped \<Rightarrow> stopped)"
      using True by (subst recover_loop.simps) simp
    show ?thesis
    proof (cases "recover_height env (\<rho> i) i s")
      case Panic
      then show ?thesis using True by (simp add: step replayed_heights_step)
    next
      case (Ret p)
      obtain s1 r where p: "p = (s1, r)" by (cases p)
      show ?thesis
      proof (cases r)
        case None
        have "recover_loop env \<rho> (i + 1) blockHeight s1 =
            replay env \<rho> (replayed_heights (i + 1) blockHeight) s1"
          using 1 [OF True Ret p [symmetric] None] .
        then show ?thesis using True Ret p None by (simp add: step replayed_heights_step)
      next
        case (Some e)
        then show ?thesis using True Ret p by (simp add: step replayed_heights_step)
      qed
    qed
  qed
qed

lemma recoverStore_replay:
  "recoverStore env \<rho> s =
     (case ssGetCurrentBlock (ss env) (stores s) of
        Inl err \<Rightarrow> Ret (s, Some (Wrapf ''stateStore.GetCurrentBlock error'' err))
      | Inr (stateHash, stateHeight) \<Rightarrow>
          replay env \<rho> (replayed_heights stateHeight (currBlockHeight s)) s)"
  unfolding recoverStore_def GetCurrentBlockHeight_def Let_def recover_loop_replay
  by (rule refl)

lemma one_behind:
  assumes "n + 1 \<noteq> (0 :: 32 word)"
  shows "replayed_heights n (n + 1) = [n] \<and> missing_heights n (n + 1) = [n + 1]"
proof -
  have "1 + n \<noteq> 0" using assms by (simp add: add.commute)
  then have suc: "unat (n + 1) = Suc (unat n)" using unatSuc [of n] by (simp add: add.commute)
  show ?thesis by (simp add: replayed_heights_def missing_heights_def suc)
qed


text \<open>The ledger stopped at height 1, the recovery from it, and the run that is not stopped.\<close>

lemma execute_block_1:
  "ExecuteBlock demo_env order_a ledger_0 (tx_block 1) = (world_0, Ret (result_1, None))"
  by (simp add: ExecuteBlock_def GetCurrentBlockHeight_def ledger_0_def world_0_def result_1_def
      exec_defs demo_defs demo_exec_defs tx_block_def deploy_tx_def)

lemma ledger_0_stores: "ledger_0\<lparr>stores := world_0\<rparr> = ledger_0"
  by (simp add: ledger_0_def)

lemma crashed_world_eq:
  "crashed_world =
     \<lparr>blockStore = empty_store\<lparr>durable := [WCurrentBlock 0 1000, WBlockHash 0 1000, WBlock genesis_block,
                                           WCurrentBlock 1 1001, WBlockHash 1 1001, WBlock (tx_block 1)]\<rparr>,
      stateStore = empty_store\<lparr>durable := [WStateRoot 0 14707, WTxRoot 1, WCurrentBlock 0 1000,
                                            WEvent ''shard events'', WDelete [56], WDelete [57]]\<rparr>,
      eventStore = empty_store\<lparr>durable := [WCurrentBlock 0 1000, WEvent ''notify by block'',
                                            WCurrentBlock 1 1001]\<rparr>,
      journal = []\<rparr>"
  unfolding crashed_world_def cut_before_state_commit_def execute_block_1
  by (simp add: after_stop_def result_1_def ledger_0_def world_0_def after_event_commit_def after_block_commit_def
      demo_defs commit_defs tx_block_def deploy_tx_def genesis_block_def List.map_filter_def)


lemma crashed_ledger_eq:
  "crashed_ledger = new_ledger\<lparr>stores := crashed_world, currBlockHash := 1001, currBlockHeight := 1\<rparr>"
  by (simp add: crashed_ledger_def loadCurrentBlock_def crashed_world_eq demo_defs)

lemma crashed_heights:
  "ssGetCurrentBlock (ss demo_env) (stores crashed_ledger) = Inr (1000, 0) \<and>
   bsGetCurrentBlock (bs demo_env) (stores crashed_ledger) = Inr (1001, 1) \<and>
   currBlockHeight crashed_ledger = 1"
  by (simp add: crashed_ledger_eq crashed_world_eq demo_defs)

lemma recoverStore_one_behind:
  assumes "ssGetCurrentBlock (ss env) (stores s) = Inr (stateHash, n)"
    and "currBlockHeight s = n + 1" and "n + 1 \<noteq> 0"
  shows "recoverStore env \<rho> s = recover_height env (\<rho> n) n s"
proof -
  have "replayed_heights n (n + 1) = [n]" using one_behind [OF assms(3)] by simp
  then have "recoverStore env \<rho> s = replay env \<rho> [n] s"
    by (simp add: recoverStore_replay assms(1,2))
  also have "\<dots> = recover_height env (\<rho> n) n s"
    by (cases "recover_height env (\<rho> n) n s") (auto split: option.splits)
  finally show ?thesis .
qed

lemma recovery_run:
  "\<exists>s. recover_height demo_env order_a 0 crashed_ledger = Ret (s, None) \<and>
       durable (stateStore (stores s)) =
         [WStateRoot 0 14707, WTxRoot 1, WCurrentBlock 0 1000, WEvent ''shard events'', WDelete [56], WDelete [57],
          WStateRoot 0 14707, WTxRoot 1, WCurrentBlock 0 1000, WEvent ''shard events'', WDelete [56], WDelete [57]] \<and>
       durable (eventStore (stores s)) =
         [WCurrentBlock 0 1000, WEvent ''notify by block'', WCurrentBlock 1 1001, WCurrentBlock 0 1000] \<and>
       ssGetCurrentBlock (ss demo_env) (stores s) = Inr (1000, 0)"
  by (simp add: recover_height_def crashed_ledger_eq crashed_world_eq
      exec_defs demo_defs demo_exec_defs commit_defs tx_block_def deploy_tx_def genesis_block_def
      List.map_filter_def)


lemma verify_1:
  "verifyHeader demo_env ledger_0 (Header (tx_block 1)) (vbftPeerInfoblock ledger_0) =
     (vbftPeerInfoblock ledger_0, None)"
  by (simp add: verifyHeader_def verifyHeader_solo_def GetHeaderByHash_def demo_lower go_div_def
      Let_def demo_hash_def ledger_0_def world_0_def demo_defs tx_block_def genesis_block_def)

lemma submit_1:
  "\<exists>s. submitBlock demo_env ledger_0 (tx_block 1) result_1 = Ret (s, None) \<and>
       durable (stateStore (stores s)) =
         [WStateRoot 0 14707, WTxRoot 1, WCurrentBlock 0 1000, WEvent ''shard events'', WDelete [56], WDelete [57],
          WStateRoot 1 95896834611352708244, WTxRoot 2, WCurrentBlock 1 1001, WEvent ''shard events'',
          WPut [4, 9] [1], WPut [5, 3] [1], WPut [56] [3], WDelete [57]] \<and>
       durable (eventStore (stores s)) =
         [WCurrentBlock 0 1000, WEvent ''notify by block'', WCurrentBlock 1 1001] \<and>
       ssGetCurrentBlock (ss demo_env) (stores s) = Inr (1001, 1)"
  by (simp add: submitBlock_def GetBlockRootWithNewTxRoots_def result_1_def
      ledger_0_def world_0_def demo_defs commit_defs tx_block_def deploy_tx_def genesis_block_def
      List.map_filter_def)

lemma uninterrupted_run:
  "\<exists>s. uninterrupted demo_env order_a ledger_0 (tx_block 1) = Ret (s, None) \<and>
       durable (stateStore (stores s)) =
         [WStateRoot 0 14707, WTxRoot 1, WCurrentBlock 0 1000, WEvent ''shard events'', WDelete [56], WDelete [57],
          WStateRoot 1 95896834611352708244, WTxRoot 2, WCurrentBlock 1 1001, WEvent ''shard events'',
          WPut [4, 9] [1], WPut [5, 3] [1], WPut [56] [3], WDelete [57]] \<and>
       durable (eventStore (stores s)) =
         [WCurrentBlock 0 1000, WEvent ''notify by block'', WCurrentBlock 1 1001] \<and>
       ssGetCurrentBlock (ss demo_env) (stores s) = Inr (1001, 1)"
proof -
  obtain s2 where sub: "submitBlock demo_env ledger_0 (tx_block 1) result_1 = Ret (s2, None)"
    and st: "durable (stateStore (stores s2)) =
         [WStateRoot 0 14707, WTxRoot 1, WCurrentBlock 0 1000, WEvent ''shard events'', WDelete [56], WDelete [57],
          WStateRoot 1 95896834611352708244, WTxRoot 2, WCurrentBlock 1 1001, WEvent ''shard events'',
          WPut [4, 9] [1], WPut [5, 3] [1], WPut [56] [3], WDelete [57]]"
    and ev: "durable (eventStore (stores s2)) =
         [WCurrentBlock 0 1000, WEvent ''notify by block'', WCurrentBlock 1 1001]"
    and cur: "ssGetCurrentBlock (ss demo_env) (stores s2) = Inr (1001, 1)"
    using submit_1 by blast
  have heights: "Height (Header (tx_block 1)) = 1" "GetCurrentBlockHeight ledger_0 = 0"
    by (simp_all add: tx_block_def demo_header_def GetCurrentBlockHeight_def ledger_0_def new_ledger_def)
  have same: "ledger_0\<lparr>vbftPeerInfoblock := vbftPeerInfoblock ledger_0\<rparr> = ledger_0"
    by simp
  have "uninterrupted demo_env order_a ledger_0 (tx_block 1) =
      SubmitBlock demo_env ledger_0 (tx_block 1) result_1"
    by (simp add: uninterrupted_def execute_block_1 ledger_0_stores)
  also have "\<dots> = Ret (delHeaderCache (BlockHash demo_env (tx_block 1)) s2, None)"
    by (simp add: SubmitBlock_def Let_def heights verify_1 same sub)
  finally show ?thesis
    using st ev cur by (simp add: delHeaderCache_def)
qed


text \<open>
  Claim C3. The ledger is stopped at height 1 between the commit of the event store and
  the commit of the state store: the block store and the event store are at height 1,
  the state store is at height 0, and height 1 is the one height that the state store
  lacks. On restart \<open>loadCurrentBlock\<close> reads height 1 from the block store, and
  \<open>recoverStore\<close> runs its loop from the state store's height 0 up to but not including
  1: the whole recovery is the one iteration at height 0. It returns nil. It has executed
  the genesis block a second time and committed what that wrote to the state store and
  the event store a second time; it has not executed the block of height 1. The state
  store is still at height 0 and holds nothing of block 1, and the event store's current
  block is back at height 0. In the run that is not stopped the state store ends at
  height 1 with the four writes of block 1, and the event store at height 1.
\<close>

theorem recoverStore_replays_committed_height:
  "ssGetCurrentBlock (ss demo_env) (stores crashed_ledger) = Inr (1000, 0) \<and>
   bsGetCurrentBlock (bs demo_env) (stores crashed_ledger) = Inr (1001, 1) \<and>
   currBlockHeight crashed_ledger = 1 \<and>
   missing_heights 0 1 = [1] \<and>
   replayed_heights 0 1 = [0] \<and>
   recoverStore demo_env (\<lambda>i. order_a) crashed_ledger = recover_height demo_env order_a 0 crashed_ledger \<and>
   (\<exists>s. recoverStore demo_env (\<lambda>i. order_a) crashed_ledger = Ret (s, None) \<and>
        durable (stateStore (stores s)) =
          [WStateRoot 0 14707, WTxRoot 1, WCurrentBlock 0 1000, WEvent ''shard events'', WDelete [56], WDelete [57],
           WStateRoot 0 14707, WTxRoot 1, WCurrentBlock 0 1000, WEvent ''shard events'', WDelete [56], WDelete [57]] \<and>
        durable (eventStore (stores s)) =
          [WCurrentBlock 0 1000, WEvent ''notify by block'', WCurrentBlock 1 1001, WCurrentBlock 0 1000] \<and>
        ssGetCurrentBlock (ss demo_env) (stores s) = Inr (1000, 0)) \<and>
   (\<exists>s. uninterrupted demo_env order_a ledger_0 (tx_block 1) = Ret (s, None) \<and>
        durable (stateStore (stores s)) =
          [WStateRoot 0 14707, WTxRoot 1, WCurrentBlock 0 1000, WEvent ''shard events'', WDelete [56], WDelete [57],
           WStateRoot 1 95896834611352708244, WTxRoot 2, WCurrentBlock 1 1001, WEvent ''shard events'',
           WPut [4, 9] [1], WPut [5, 3] [1], WPut [56] [3], WDelete [57]] \<and>
        durable (eventStore (stores s)) =
          [WCurrentBlock 0 1000, WEvent ''notify by block'', WCurrentBlock 1 1001] \<and>
        ssGetCurrentBlock (ss demo_env) (stores s) = Inr (1001, 1))"
proof -
  have h: "ssGetCurrentBlock (ss demo_env) (stores crashed_ledger) = Inr (1000, 0)"
    and b: "bsGetCurrentBlock (bs demo_env) (stores crashed_ledger) = Inr (1001, 1)"
    and c: "currBlockHeight crashed_ledger = 1"
    using crashed_heights by simp_all
  have lists: "replayed_heights 0 1 = [0] \<and> missing_heights 0 1 = [1]"
    using one_behind [of 0] by simp
  have one: "recoverStore demo_env (\<lambda>i. order_a) crashed_ledger =
      recover_height demo_env order_a 0 crashed_ledger"
    using recoverStore_one_behind [of demo_env crashed_ledger 1000 0 "\<lambda>i. order_a"] h c by simp
  show ?thesis
    using h b c lists one recovery_run uninterrupted_run by (simp only: simp_thms)
qed

end
